theory Spec2Isabelle
  imports Complex_Main "HOL-Library.Sublist"
begin

section \<open>Search results and their deduplication\<close>

text \<open>
  The class \<open>PaperSearchResult\<close> of \<open>app/schemas/gap_schemas.py\<close>. Optional fields are
  \<open>option\<close> values, \<open>None\<close> standing for Python's \<open>None\<close>.
\<close>

record PaperSearchResult =
  title :: string
  abstract :: "string option"
  doi :: "string option"
  url :: "string option"
  pdf_url :: "string option"
  publication_date :: "string option"
  authors :: "string list"
  venue :: "string option"

text \<open>
  \<open>clean_text\<close> and \<open>calculate_similarity\<close> are imported by \<open>search_service.py\<close> from
  \<open>app/utils/helpers.py\<close>, and \<open>lower\<close> is Python's \<open>str.lower\<close>. They are pure functions
  of their arguments, taken here as parameters. A similarity score is a Python float and
  is modelled as a real number.
\<close>

record helpers =
  clean_text :: "string \<Rightarrow> string"
  lower :: "string \<Rightarrow> string"
  calculate_similarity :: "string \<Rightarrow> string \<Rightarrow> real"

text \<open>The expression \<open>clean_text(result.title).lower()\<close>.\<close>

definition normalized_title :: "helpers \<Rightarrow> PaperSearchResult \<Rightarrow> string" where
  "normalized_title h r = lower h (clean_text h (title r))"

text \<open>
  The inner loop of \<open>_deduplicate_results\<close>: it walks the accepted results in order and
  leaves with \<open>is_duplicate = True\<close> at the first one whose similarity exceeds 0.8.
\<close>

fun is_duplicate :: "helpers \<Rightarrow> string \<Rightarrow> PaperSearchResult list \<Rightarrow> bool" where
  "is_duplicate h t [] = False"
| "is_duplicate h t (existing_result # rest) =
     (if calculate_similarity h t (normalized_title h existing_result) > 8 / 10 then True
      else is_duplicate h t rest)"

text \<open>The outer loop, with \<open>unique_results\<close> as the accumulator.\<close>

fun dedup_loop ::
  "helpers \<Rightarrow> PaperSearchResult list \<Rightarrow> PaperSearchResult list \<Rightarrow> PaperSearchResult list"
where
  "dedup_loop h unique_results [] = unique_results"
| "dedup_loop h unique_results (result # results) =
     (if is_duplicate h (normalized_title h result) unique_results
      then dedup_loop h unique_results results
      else dedup_loop h (unique_results @ [result]) results)"

definition deduplicate_results :: "helpers \<Rightarrow> PaperSearchResult list \<Rightarrow> PaperSearchResult list"
where
  "deduplicate_results h results = dedup_loop h [] results"

section \<open>Exceptions, collaborators and the record of their calls\<close>

text \<open>
  A Python exception is a value. Every handler of the modelled code is \<open>except Exception\<close>,
  so the class of an exception matters only for its text, \<open>str(e)\<close>.
\<close>

datatype exn =
    AttributeError string string
  | ValueError string
  | ValidationError string
  | CollaboratorError string

fun str_exn :: "exn \<Rightarrow> string" where
  "str_exn (AttributeError cls attr) =
     [CHR 0x27] @ cls @ [CHR 0x27] @ '' object has no attribute '' @ [CHR 0x27] @ attr @ [CHR 0x27]"
| "str_exn (ValueError msg) = msg"
| "str_exn (ValidationError msg) = msg"
| "str_exn (CollaboratorError msg) = msg"

text \<open>
  The calls a task makes on its collaborators (database session, rate limiter, AI model,
  search providers, extraction service), in program order. Calls that \<open>asyncio.gather\<close>
  runs concurrently are listed in the order of the gathered tasks.
\<close>

datatype prompt = InitialGapsPrompt | QueryPrompt | VerdictPrompt | ExpandPrompt

datatype provider = SemanticScholar | Crossref | Arxiv

datatype event =
    SessionCommit
  | SessionRefresh
  | RateLimiterWait
  | GenerateContent prompt
  | ProviderSearch provider string
  | ExtractBatch
  | ExtractFromUrl string
  | GeminiValidateGap
  | GeminiExpandGapDetails
  | FetchPaperData
  | SessionExecute
  | CloseSearchService
  | CloseGrobidClient

section \<open>Schemas\<close>

text \<open>
  The classes \<open>ExtractedContent\<close>, \<open>InitialGap\<close> and \<open>ValidationResult\<close> of
  \<open>gap_schemas.py\<close>. A \<open>Dict[str, str]\<close> is an association list. Field names that occur in
  several classes carry a prefix naming the class.
\<close>

type_synonym str_dict = "(string \<times> string) list"

record ExtractedContent =
  ec_title :: string
  ec_abstract :: "string option"
  ec_sections :: "str_dict list"
  ec_conclusion :: "string option"
  ec_methods :: "string option"
  ec_results :: "string option"
  extraction_success :: bool
  ec_error :: "string option"

record InitialGap =
  name :: string
  description :: string
  category :: string
  reasoning :: string
  evidence :: string

record ValidationResult =
  is_valid :: bool
  confidence :: real
  vr_reasoning :: string
  should_modify :: bool
  modification_suggestion :: "string option"
  vr_supporting_papers :: "str_dict list"
  vr_conflicting_papers :: "str_dict list"

text \<open>
  The rows the service writes through \<open>app/model/gap_models.py\<close>, with the columns the
  service reads or assigns. A column that no assignment has set is \<open>None\<close>. Timestamps are
  natural numbers.
\<close>

datatype GapValidationStatus = INITIAL | VALIDATING | VALID | INVALID | MODIFIED

record modification_entry =
  me_timestamp :: nat
  me_original :: string
  me_modification :: "string option"

record evidence_anchor =
  ea_title :: "string option"
  ea_url :: string
  ea_type :: string

record topic_data =
  td_title :: "string option"
  td_description :: "string option"
  td_research_questions :: "string list option"
  td_methodology_suggestions :: "string option"
  td_expected_outcomes :: "string option"
  td_relevance_score :: "real option"

record ResearchGap =
  rg_id :: "string option"
  rg_gap_analysis_id :: string
  rg_gap_id :: string
  rg_order_index :: nat
  rg_name :: string
  rg_description :: string
  rg_category :: string
  rg_initial_reasoning :: string
  rg_initial_evidence :: string
  validation_status :: GapValidationStatus
  validation_query :: "string option"
  validation_confidence :: "real option"
  validation_reasoning :: "string option"
  validated_at :: "nat option"
  papers_analyzed_count :: "nat option"
  modification_history :: "modification_entry list option"
  supporting_papers :: "str_dict list option"
  conflicting_papers :: "str_dict list option"
  potential_impact :: "string option"
  research_hints :: "string option"
  implementation_suggestions :: "string option"
  risks_and_challenges :: "string option"
  required_resources :: "string option"
  estimated_difficulty :: "string option"
  estimated_timeline :: "string option"
  suggested_topics :: "topic_data list option"
  evidence_anchors :: "evidence_anchor list option"

record GapValidationPaper =
  vp_research_gap_id :: "string option"
  vp_title :: string
  vp_doi :: "string option"
  vp_url :: "string option"
  vp_extraction_status :: string
  vp_extracted_text :: "string option"

record GapTopic =
  gt_research_gap_id :: "string option"
  gt_title :: "string option"
  gt_description :: "string option"
  gt_research_questions :: "string list option"
  gt_methodology_suggestions :: "string option"
  gt_expected_outcomes :: "string option"
  gt_relevance_score :: "real option"

text \<open>
  The dictionary that \<open>GeminiService.expand_gap_details\<close> returns, read with \<open>dict.get\<close>:
  \<open>None\<close> is an absent key. \<open>validation_dict\<close> is the dictionary that
  \<open>_expand_gap_details\<close> builds from the gap's confidence and reasoning.
\<close>

record expanded_details =
  ed_potential_impact :: "string option"
  ed_research_hints :: "string option"
  ed_implementation_suggestions :: "string option"
  ed_risks_and_challenges :: "string option"
  ed_required_resources :: "string option"
  ed_estimated_difficulty :: "string option"
  ed_estimated_timeline :: "string option"
  ed_suggested_topics :: "topic_data list option"

record validation_dict =
  vd_confidence :: "real option"
  vd_reasoning :: "string option"

section \<open>Actions: state passing with exceptions\<close>

text \<open>
  An action takes the state and returns its outcome, \<open>Inl e\<close> when it raises \<open>e\<close>, together
  with the state it leaves behind; what was assigned before a \<open>raise\<close> stays assigned.
  \<open>bindM\<close> is sequencing, \<open>catchM\<close> is \<open>try ... except Exception as e\<close>.
\<close>

type_synonym ('s, 'a) action = "'s \<Rightarrow> (exn + 'a) \<times> 's"

definition returnM :: "'a \<Rightarrow> ('s, 'a) action" where
  "returnM x = (\<lambda>s. (Inr x, s))"

definition raiseM :: "exn \<Rightarrow> ('s, 'a) action" where
  "raiseM e = (\<lambda>s. (Inl e, s))"

definition liftE :: "exn + 'a \<Rightarrow> ('s, 'a) action" where
  "liftE r = (\<lambda>s. (r, s))"

definition bindM :: "('s, 'a) action \<Rightarrow> ('a \<Rightarrow> ('s, 'b) action) \<Rightarrow> ('s, 'b) action" where
  "bindM m f = (\<lambda>s. case m s of (Inl e, s') \<Rightarrow> (Inl e, s') | (Inr x, s') \<Rightarrow> f x s')"

definition catchM :: "('s, 'a) action \<Rightarrow> (exn \<Rightarrow> ('s, 'a) action) \<Rightarrow> ('s, 'a) action" where
  "catchM m handler = (\<lambda>s. case m s of (Inl e, s') \<Rightarrow> handler e s' | (Inr x, s') \<Rightarrow> (Inr x, s'))"

text \<open>Every state carries the calls made so far.\<close>

record traced =
  trace :: "event list"

definition emit :: "event \<Rightarrow> ('z traced_scheme, unit) action" where
  "emit ev = (\<lambda>s. (Inr (), s\<lparr>trace := trace s @ [ev]\<rparr>))"

definition count_events :: "event \<Rightarrow> event list \<Rightarrow> nat" where
  "count_events ev evs = length (filter (\<lambda>x. x = ev) evs)"

text \<open>
  \<open>asyncio.gather(*tasks, return_exceptions=True)\<close>: every task runs, and the outcomes come
  back in the order of the tasks, an exception as a value in its task's place.
\<close>

fun gather_outcomes :: "('s, 'a) action list \<Rightarrow> 's \<Rightarrow> (exn + 'a) list \<times> 's" where
  "gather_outcomes [] s = ([], s)"
| "gather_outcomes (t # ts) s =
     (case t s of (r, s') \<Rightarrow> (case gather_outcomes ts s' of (rs, s'') \<Rightarrow> (r # rs, s'')))"

definition gather :: "('s, 'a) action list \<Rightarrow> ('s, (exn + 'a) list) action" where
  "gather ts = (\<lambda>s. case gather_outcomes ts s of (rs, s') \<Rightarrow> (Inr rs, s'))"

text \<open>
  What \<open>asyncio.gather(*tasks, return_exceptions=True)\<close> puts in its result list for a
  task: the value the task returned, the exception of class \<open>Exception\<close> it raised, or an
  exception outside that class, which no \<open>isinstance(result, Exception)\<close> recognises:
  \<open>asyncio.CancelledError\<close>, a \<open>BaseException\<close>, stands in the list for a task that was
  cancelled. \<open>extract_batch\<close> appends a record for the first two kinds only, so its tasks
  are gathered with all three; \<open>search_papers\<close> extends its list for a returned list only
  and skips everything else alike, so \<open>gather\<close> above serves it.
\<close>

datatype 'a task_outcome = Returned 'a | Raised exn | Cancelled

fun gather_tasks :: "('s \<Rightarrow> 'a task_outcome \<times> 's) list \<Rightarrow> 's \<Rightarrow> 'a task_outcome list \<times> 's" where
  "gather_tasks [] s = ([], s)"
| "gather_tasks (t # ts) s =
     (case t s of (r, s') \<Rightarrow> (case gather_tasks ts s' of (rs, s'') \<Rightarrow> (r # rs, s'')))"

text \<open>
  Modelled from the spec: the decorator \<open>retry_async(max_attempts, delay)\<close> of
  \<open>app/utils/helpers.py\<close>, which is not among the sources. It runs the operation; when an
  attempt raises it runs the operation again, up to \<open>max_attempts\<close> attempts in all, one
  after the other; the failure of the last attempt is raised to the caller. The delay
  between attempts is not modelled.
\<close>

primrec retry_more :: "nat \<Rightarrow> ('s, 'a) action \<Rightarrow> ('s, 'a) action" where
  "retry_more 0 operation = operation"
| "retry_more (Suc k) operation =
     (\<lambda>s. case operation s of
             (Inl e, s') \<Rightarrow> retry_more k operation s'
           | (Inr x, s') \<Rightarrow> (Inr x, s'))"

definition retry_async :: "nat \<Rightarrow> ('s, 'a) action \<Rightarrow> ('s, 'a) action" where
  "retry_async max_attempts operation = retry_more (max_attempts - 1) operation"

section \<open>The behaviour of the collaborators\<close>

text \<open>
  What the collaborators of one task answer. A call that can be made several times is
  indexed by the number of earlier calls of its kind. \<open>generate_content\<close> is the text of
  the AI model's response, or the exception of the call; \<open>parse_validation_result\<close> is
  \<open>parse_json_safely\<close> followed by the constructor \<open>ValidationResult(**data)\<close>, which
  raises on data that does not fit the schema; \<open>parse_expanded_details\<close> is
  \<open>parse_json_safely\<close> on the response of the expansion prompt; \<open>provider_search\<close> is the
  outcome of the decorated coroutines \<open>_search_semantic_scholar\<close>, \<open>_search_crossref\<close> and
  \<open>_search_arxiv\<close>; \<open>extract_from_url\<close> is what \<open>gather\<close> reports for the task of the
  decorated coroutine \<open>GrobidClient.extract_from_url\<close>; \<open>now\<close> is the clock, read after
  the given number of calls.
\<close>

record collaborators =
  commit_outcome :: "nat \<Rightarrow> exn option"
  refresh_outcome :: "nat \<Rightarrow> exn + string"
  generate_content :: "prompt \<Rightarrow> nat \<Rightarrow> exn + string"
  parse_validation_result :: "string \<Rightarrow> exn + ValidationResult"
  parse_expanded_details :: "string \<Rightarrow> expanded_details"
  provider_search :: "provider \<Rightarrow> string \<Rightarrow> int \<Rightarrow> exn + PaperSearchResult list"
  extract_from_url :: "string \<Rightarrow> ExtractedContent task_outcome"
  now :: "nat \<Rightarrow> nat"
  uuid4 :: string
  text_helpers :: helpers

definition session_commit :: "'c collaborators_scheme \<Rightarrow> ('z traced_scheme, unit) action" where
  "session_commit env = (\<lambda>s.
     let k = count_events SessionCommit (trace s);
         s' = s\<lparr>trace := trace s @ [SessionCommit]\<rparr>
     in case commit_outcome env k of None \<Rightarrow> (Inr (), s') | Some e \<Rightarrow> (Inl e, s'))"

definition session_refresh :: "'c collaborators_scheme \<Rightarrow> ('z traced_scheme, string) action" where
  "session_refresh env = (\<lambda>s.
     (refresh_outcome env (count_events SessionRefresh (trace s)),
      s\<lparr>trace := trace s @ [SessionRefresh]\<rparr>))"

definition utc_now :: "'c collaborators_scheme \<Rightarrow> ('z traced_scheme, nat) action" where
  "utc_now env = (\<lambda>s. (Inr (now env (length (trace s))), s))"

text \<open>
  Modelled from the spec: \<open>RateLimiter.wait_if_needed\<close> of \<open>app/utils/helpers.py\<close>, which
  is not among the sources. It suspends the caller until a call slot is free and then
  returns; the call is recorded.
\<close>

definition rate_limiter_wait :: "('z traced_scheme, unit) action" where
  "rate_limiter_wait = emit RateLimiterWait"

text \<open>\<open>asyncio.to_thread(self.model.generate_content, prompt)\<close> and the read of \<open>response.text\<close>.\<close>

definition model_generate_content ::
  "'c collaborators_scheme \<Rightarrow> prompt \<Rightarrow> ('z traced_scheme, string) action"
where
  "model_generate_content env p = (\<lambda>s.
     (generate_content env p (count_events (GenerateContent p) (trace s)),
      s\<lparr>trace := trace s @ [GenerateContent p]\<rparr>))"

section \<open>GeminiService\<close>

text \<open>
  \<open>str.strip\<close>: without argument it removes leading and trailing whitespace, with an
  argument the characters of the argument. Strings are ASCII here.
\<close>

definition is_whitespace :: "char \<Rightarrow> bool" where
  "is_whitespace c \<longleftrightarrow>
     c \<in> set [CHR '' '', CHR 0x09, CHR 0x0A, CHR 0x0B, CHR 0x0C, CHR 0x0D,
              CHR 0x1C, CHR 0x1D, CHR 0x1E, CHR 0x1F]"

definition py_strip :: "(char \<Rightarrow> bool) \<Rightarrow> string \<Rightarrow> string" where
  "py_strip p s = rev (dropWhile p (rev (dropWhile p s)))"

text \<open>
  \<open>generate_search_query\<close> carries no \<open>retry_async\<close> decorator and does not call the rate
  limiter: its \<open>try\<close> block is the call of the AI model and the two \<open>strip\<close>s, its handler
  returns \<open>f"{gap.name} {gap.category}"\<close>.
\<close>

definition generate_search_query ::
  "'c collaborators_scheme \<Rightarrow> InitialGap \<Rightarrow> ('z traced_scheme, string) action"
where
  "generate_search_query env gap =
     catchM
       (bindM (model_generate_content env QueryPrompt) (\<lambda>text.
        returnM (py_strip (\<lambda>c. c = CHR 0x22) (py_strip is_whitespace text))))
       (\<lambda>e. returnM (name gap @ '' '' @ category gap))"

text \<open>The \<open>ValidationResult\<close> that the handler of \<open>validate_gap\<close> returns.\<close>

definition default_validation :: ValidationResult where
  "default_validation =
     \<lparr>is_valid = True, confidence = 3 / 10,
      vr_reasoning = ''Could not validate due to error'', should_modify = False,
      modification_suggestion = None, vr_supporting_papers = [], vr_conflicting_papers = []\<rparr>"

text \<open>
  \<open>validate_gap\<close>, decorated with \<open>retry_async(max_attempts=3, delay=2)\<close>. The body waits
  for the rate limiter, calls the AI model and builds the \<open>ValidationResult\<close>; its own
  handler turns every exception into \<open>default_validation\<close>.
\<close>

definition gemini_validate_gap_body ::
  "'c collaborators_scheme \<Rightarrow> InitialGap \<Rightarrow> ExtractedContent list
     \<Rightarrow> ('z traced_scheme, ValidationResult) action"
where
  "gemini_validate_gap_body env gap related_papers =
     catchM
       (bindM rate_limiter_wait (\<lambda>_.
        bindM (model_generate_content env VerdictPrompt) (\<lambda>text.
        liftE (parse_validation_result env text))))
       (\<lambda>e. returnM default_validation)"

definition gemini_validate_gap ::
  "'c collaborators_scheme \<Rightarrow> InitialGap \<Rightarrow> ExtractedContent list
     \<Rightarrow> ('z traced_scheme, ValidationResult) action"
where
  "gemini_validate_gap env gap related_papers =
     bindM (emit GeminiValidateGap) (\<lambda>_.
     retry_async 3 (gemini_validate_gap_body env gap related_papers))"

text \<open>
  A Python \<open>dict\<close> gives its entries by subscription; reading a key as an attribute,
  \<open>d.key\<close>, raises \<open>AttributeError\<close>.
\<close>

definition dict_attribute :: "'d \<Rightarrow> string \<Rightarrow> exn + 'v" where
  "dict_attribute d attr = Inl (AttributeError ''dict'' attr)"

text \<open>The dictionary that the handler of \<open>expand_gap_details\<close> returns.\<close>

definition unavailable_details :: expanded_details where
  "unavailable_details =
     \<lparr>ed_potential_impact = Some ''Unable to generate impact analysis'',
      ed_research_hints = Some ''Unable to generate hints'',
      ed_implementation_suggestions = Some ''Unable to generate suggestions'',
      ed_risks_and_challenges = Some ''Unable to identify risks'',
      ed_required_resources = Some ''Unable to identify resources'',
      ed_estimated_difficulty = Some ''unknown'',
      ed_estimated_timeline = Some ''unknown'',
      ed_suggested_topics = Some []\<rparr>"

text \<open>
  \<open>expand_gap_details\<close>, decorated with \<open>retry_async(max_attempts=3, delay=2)\<close>. The prompt
  is an f-string that reads \<open>validation.confidence\<close>; the caller passes a \<open>dict\<close> for
  \<open>validation\<close>.
\<close>

definition gemini_expand_gap_details_body ::
  "'c collaborators_scheme \<Rightarrow> InitialGap \<Rightarrow> validation_dict
     \<Rightarrow> ('z traced_scheme, expanded_details) action"
where
  "gemini_expand_gap_details_body env gap validation =
     catchM
       (bindM rate_limiter_wait (\<lambda>_.
        bindM (liftE (dict_attribute validation ''confidence'' :: exn + real option)) (\<lambda>_.
        bindM (model_generate_content env ExpandPrompt) (\<lambda>text.
        returnM (parse_expanded_details env text)))))
       (\<lambda>e. returnM unavailable_details)"

definition gemini_expand_gap_details ::
  "'c collaborators_scheme \<Rightarrow> InitialGap \<Rightarrow> validation_dict
     \<Rightarrow> ('z traced_scheme, expanded_details) action"
where
  "gemini_expand_gap_details env gap validation =
     bindM (emit GeminiExpandGapDetails) (\<lambda>_.
     retry_async 3 (gemini_expand_gap_details_body env gap validation))"

section \<open>WebSearchService.search_papers\<close>

definition search_provider ::
  "'c collaborators_scheme \<Rightarrow> provider \<Rightarrow> string \<Rightarrow> int
     \<Rightarrow> ('z traced_scheme, PaperSearchResult list) action"
where
  "search_provider env p query limit = (\<lambda>s.
     (provider_search env p query limit, s\<lparr>trace := trace s @ [ProviderSearch p query]\<rparr>))"

text \<open>
  The loop over \<open>results_lists\<close>: a list extends \<open>all_results\<close>, an exception is logged.
\<close>

fun merge_results ::
  "PaperSearchResult list \<Rightarrow> (exn + PaperSearchResult list) list \<Rightarrow> PaperSearchResult list"
where
  "merge_results all_results [] = all_results"
| "merge_results all_results (Inr results # rest) = merge_results (all_results @ results) rest"
| "merge_results all_results (Inl e # rest) = merge_results all_results rest"

text \<open>The slice \<open>xs[:n]\<close>; a negative \<open>n\<close> counts from the end.\<close>

definition slice_upto :: "int \<Rightarrow> 'a list \<Rightarrow> 'a list" where
  "slice_upto n xs = (if 0 \<le> n then take (nat n) xs else take (length xs - nat (- n)) xs)"

definition search_papers ::
  "'c collaborators_scheme \<Rightarrow> string \<Rightarrow> int \<Rightarrow> ('z traced_scheme, PaperSearchResult list) action"
where
  "search_papers env query max_results =
     bindM (gather [search_provider env SemanticScholar query max_results,
                    search_provider env Crossref query max_results,
                    search_provider env Arxiv query max_results]) (\<lambda>results_lists.
     returnM (slice_upto max_results
       (deduplicate_results (text_helpers env) (merge_results [] results_lists))))"

section \<open>GrobidClient.extract_batch\<close>

text \<open>Python's truth value of an \<open>Optional[str]\<close>: \<open>None\<close> and the empty string are false.\<close>

fun truthy :: "string option \<Rightarrow> bool" where
  "truthy None = False"
| "truthy (Some s) = (s \<noteq> [])"

definition create_extraction_from_metadata :: "PaperSearchResult \<Rightarrow> ExtractedContent" where
  "create_extraction_from_metadata paper =
     \<lparr>ec_title = title paper, ec_abstract = abstract paper, ec_sections = [],
      ec_conclusion = None, ec_methods = None, ec_results = None,
      extraction_success = False, ec_error = Some ''No PDF available''\<rparr>"

definition grobid_extract_from_url ::
  "'c collaborators_scheme \<Rightarrow> string
     \<Rightarrow> 'z traced_scheme \<Rightarrow> ExtractedContent task_outcome \<times> 'z traced_scheme"
where
  "grobid_extract_from_url env pdf = (\<lambda>s.
     (extract_from_url env pdf, s\<lparr>trace := trace s @ [ExtractFromUrl pdf]\<rparr>))"

text \<open>The first loop of \<open>extract_batch\<close>: one task for each paper.\<close>

definition extraction_task ::
  "'c collaborators_scheme \<Rightarrow> PaperSearchResult
     \<Rightarrow> 'z traced_scheme \<Rightarrow> ExtractedContent task_outcome \<times> 'z traced_scheme"
where
  "extraction_task env paper =
     (if truthy (pdf_url paper) then grobid_extract_from_url env (the (pdf_url paper))
      else (\<lambda>s. (Returned (create_extraction_from_metadata paper), s)))"

text \<open>
  The second loop, over \<open>enumerate(results)\<close>: an \<open>ExtractedContent\<close> is appended as it
  is, an \<open>Exception\<close> becomes a record with \<open>extraction_success=False\<close>. The \<open>if\<close> and its
  \<open>elif\<close> have no \<open>else\<close>: for a result that is neither, nothing is appended and the loop
  goes on with the next index.
\<close>

definition failed_extraction :: "string \<Rightarrow> exn \<Rightarrow> ExtractedContent" where
  "failed_extraction t e =
     \<lparr>ec_title = t, ec_abstract = None, ec_sections = [], ec_conclusion = None,
      ec_methods = None, ec_results = None, extraction_success = False,
      ec_error = Some (str_exn e)\<rparr>"

fun collect_extractions ::
  "PaperSearchResult list \<Rightarrow> nat \<Rightarrow> ExtractedContent task_outcome list \<Rightarrow> ExtractedContent list"
where
  "collect_extractions papers i [] = []"
| "collect_extractions papers i (Returned content # rest) =
     content # collect_extractions papers (Suc i) rest"
| "collect_extractions papers i (Raised e # rest) =
     failed_extraction (if i < length papers then title (papers ! i) else []) e
     # collect_extractions papers (Suc i) rest"
| "collect_extractions papers i (Cancelled # rest) =
     collect_extractions papers (Suc i) rest"

definition extract_batch ::
  "'c collaborators_scheme \<Rightarrow> PaperSearchResult list
     \<Rightarrow> ('z traced_scheme, ExtractedContent list) action"
where
  "extract_batch env papers =
     bindM (emit ExtractBatch) (\<lambda>_.
     bindM (\<lambda>s. case gather_tasks (map (extraction_task env) papers) s of
                  (results, s') \<Rightarrow> (Inr results, s')) (\<lambda>results.
     returnM (collect_extractions papers 0 results)))"

section \<open>GapAnalysisService: one gap\<close>

text \<open>
  The state of the task that processes one gap: the object \<open>gap_record\<close>, which the code
  mutates in place, the rows handed to \<open>session.add\<close>, and the calls made.
\<close>

record task_state = traced +
  gap_record :: ResearchGap
  validation_papers :: "GapValidationPaper list"
  topics :: "GapTopic list"

definition modify_gap :: "(ResearchGap \<Rightarrow> ResearchGap) \<Rightarrow> (task_state, unit) action" where
  "modify_gap f = (\<lambda>s. (Inr (), s\<lparr>gap_record := f (gap_record s)\<rparr>))"

definition get_gap :: "(task_state, ResearchGap) action" where
  "get_gap = (\<lambda>s. (Inr (gap_record s), s))"

text \<open>
  The loop \<open>for paper, content in zip(related_papers, extracted_contents)\<close> of
  \<open>_validate_gap\<close>, which adds one \<open>GapValidationPaper\<close> for each pair.
\<close>

definition validation_paper_of ::
  "ResearchGap \<Rightarrow> PaperSearchResult \<times> ExtractedContent \<Rightarrow> GapValidationPaper"
where
  "validation_paper_of r pc =
     \<lparr>vp_research_gap_id = rg_id r, vp_title = title (fst pc), vp_doi = doi (fst pc),
      vp_url = url (fst pc),
      vp_extraction_status = (if extraction_success (snd pc) then ''SUCCESS'' else ''FAILED''),
      vp_extracted_text = (if truthy (ec_abstract (snd pc)) then ec_abstract (snd pc) else None)\<rparr>"

definition store_validation_papers ::
  "(PaperSearchResult \<times> ExtractedContent) list \<Rightarrow> (task_state, unit) action"
where
  "store_validation_papers pairs = (\<lambda>s.
     (Inr (), s\<lparr>validation_papers :=
        validation_papers s @ map (validation_paper_of (gap_record s)) pairs\<rparr>))"

text \<open>The assignments of \<open>_validate_gap\<close> after the verdict, up to the \<open>commit\<close>.\<close>

definition apply_verdict :: "InitialGap \<Rightarrow> ValidationResult \<Rightarrow> nat \<Rightarrow> ResearchGap \<Rightarrow> ResearchGap"
where
  "apply_verdict gap validation_result t r =
     (if is_valid validation_result then
        (let r1 =
           (if should_modify validation_result then
              (let r2 = r\<lparr>validation_status := MODIFIED,
                          modification_history := Some
                            [\<lparr>me_timestamp = t, me_original = description gap,
                              me_modification = modification_suggestion validation_result\<rparr>]\<rparr>
               in if truthy (modification_suggestion validation_result)
                  then r2\<lparr>rg_description := the (modification_suggestion validation_result)\<rparr>
                  else r2)
            else r\<lparr>validation_status := VALID\<rparr>)
         in r1\<lparr>supporting_papers := Some (vr_supporting_papers validation_result),
                conflicting_papers := Some (vr_conflicting_papers validation_result)\<rparr>)
      else r\<lparr>validation_status := INVALID\<rparr>)"

text \<open>The \<open>try\<close> block of \<open>_validate_gap\<close>.\<close>

definition validate_gap_try ::
  "'c collaborators_scheme \<Rightarrow> InitialGap \<Rightarrow> (task_state, bool) action"
where
  "validate_gap_try env gap =
     bindM (modify_gap (\<lambda>r. r\<lparr>validation_status := VALIDATING\<rparr>)) (\<lambda>_.
     bindM (session_commit env) (\<lambda>_.
     bindM (generate_search_query env gap) (\<lambda>search_query.
     bindM (modify_gap (\<lambda>r. r\<lparr>validation_query := Some search_query\<rparr>)) (\<lambda>_.
     bindM (search_papers env search_query 10) (\<lambda>related_papers.
     if related_papers = [] then
       bindM (utc_now env) (\<lambda>t.
       bindM (modify_gap (\<lambda>r. r\<lparr>validation_status := VALID,
                                 validation_confidence := Some (5 / 10),
                                 validated_at := Some t\<rparr>)) (\<lambda>_.
       bindM (session_commit env) (\<lambda>_.
       returnM True)))
     else
       bindM (extract_batch env related_papers) (\<lambda>extracted_contents.
       bindM (store_validation_papers (zip related_papers extracted_contents)) (\<lambda>_.
       bindM (modify_gap (\<lambda>r. r\<lparr>papers_analyzed_count := Some (length related_papers)\<rparr>))
         (\<lambda>_.
       bindM (gemini_validate_gap env gap extracted_contents) (\<lambda>validation_result.
       bindM (utc_now env) (\<lambda>t.
       bindM (modify_gap (\<lambda>r. r\<lparr>validation_confidence := Some (confidence validation_result),
                                 validation_reasoning := Some (vr_reasoning validation_result),
                                 validated_at := Some t\<rparr>)) (\<lambda>_.
       bindM (utc_now env) (\<lambda>t'.
       bindM (modify_gap (apply_verdict gap validation_result t')) (\<lambda>_.
       bindM (session_commit env) (\<lambda>_.
       returnM (is_valid validation_result)))))))))))))))"

text \<open>The handler of \<open>_validate_gap\<close>, and the function.\<close>

definition validate_gap_except :: "'c collaborators_scheme \<Rightarrow> exn \<Rightarrow> (task_state, bool) action"
where
  "validate_gap_except env e =
     bindM (modify_gap (\<lambda>r. r\<lparr>validation_status := VALID,
                               validation_confidence := Some (3 / 10),
                               validation_reasoning := Some (''Validation error: '' @ str_exn e)\<rparr>))
       (\<lambda>_.
     bindM (session_commit env) (\<lambda>_.
     returnM True))"

definition validate_gap :: "'c collaborators_scheme \<Rightarrow> InitialGap \<Rightarrow> (task_state, bool) action"
where
  "validate_gap env gap = catchM (validate_gap_try env gap) (validate_gap_except env)"

text \<open>
  \<open>_expand_gap_details\<close>. The topics of the expansion are added to the session, the
  evidence anchors are rebuilt from the supporting and conflicting papers, and the
  handler logs the exception and returns.
\<close>

definition topic_of :: "ResearchGap \<Rightarrow> topic_data \<Rightarrow> GapTopic" where
  "topic_of r td =
     \<lparr>gt_research_gap_id = rg_id r, gt_title = td_title td,
      gt_description = td_description td,
      gt_research_questions =
        Some (case td_research_questions td of None \<Rightarrow> [] | Some qs \<Rightarrow> qs),
      gt_methodology_suggestions = td_methodology_suggestions td,
      gt_expected_outcomes = td_expected_outcomes td,
      gt_relevance_score =
        Some (case td_relevance_score td of None \<Rightarrow> 5 / 10 | Some x \<Rightarrow> x)\<rparr>"

definition anchors_of :: "string \<Rightarrow> str_dict list option \<Rightarrow> evidence_anchor list" where
  "anchors_of kind papers =
     (case papers of
        None \<Rightarrow> []
      | Some ps \<Rightarrow>
          map (\<lambda>paper. \<lparr>ea_title = map_of paper ''title'',
                         ea_url = (case map_of paper ''url'' of None \<Rightarrow> [] | Some u \<Rightarrow> u),
                         ea_type = kind\<rparr>) ps)"

definition store_expansion :: "expanded_details \<Rightarrow> (task_state, unit) action" where
  "store_expansion expanded = (\<lambda>s.
     let suggested = (case ed_suggested_topics expanded of None \<Rightarrow> [] | Some tds \<Rightarrow> tds);
         r = gap_record s;
         r' = r\<lparr>potential_impact := ed_potential_impact expanded,
                research_hints := ed_research_hints expanded,
                implementation_suggestions := ed_implementation_suggestions expanded,
                risks_and_challenges := ed_risks_and_challenges expanded,
                required_resources := ed_required_resources expanded,
                estimated_difficulty := ed_estimated_difficulty expanded,
                estimated_timeline := ed_estimated_timeline expanded,
                suggested_topics := Some suggested,
                evidence_anchors := Some (anchors_of ''supporting'' (supporting_papers r)
                                          @ anchors_of ''conflicting'' (conflicting_papers r))\<rparr>
     in (Inr (), s\<lparr>gap_record := r', topics := topics s @ map (topic_of r) suggested\<rparr>))"

definition expand_gap_details ::
  "'c collaborators_scheme \<Rightarrow> InitialGap \<Rightarrow> (task_state, unit) action"
where
  "expand_gap_details env gap =
     catchM
       (bindM get_gap (\<lambda>r.
        bindM (gemini_expand_gap_details env gap
                 \<lparr>vd_confidence = validation_confidence r,
                  vd_reasoning = validation_reasoning r\<rparr>) (\<lambda>expanded_details.
        bindM (store_expansion expanded_details) (\<lambda>_.
        session_commit env))))
       (\<lambda>e. returnM ())"

text \<open>
  \<open>_create_gap_record\<close>: the object is built by the constructor call, with which the
  task's state begins; it is then committed and refreshed, which gives it its row id.
\<close>

definition new_gap_record ::
  "'c collaborators_scheme \<Rightarrow> string \<Rightarrow> InitialGap \<Rightarrow> nat \<Rightarrow> ResearchGap"
where
  "new_gap_record env analysis_id gap index =
     \<lparr>rg_id = None, rg_gap_analysis_id = analysis_id, rg_gap_id = uuid4 env,
      rg_order_index = index, rg_name = name gap, rg_description = description gap,
      rg_category = category gap, rg_initial_reasoning = reasoning gap,
      rg_initial_evidence = evidence gap, validation_status = INITIAL,
      validation_query = None, validation_confidence = None, validation_reasoning = None,
      validated_at = None, papers_analyzed_count = None, modification_history = None,
      supporting_papers = None, conflicting_papers = None, potential_impact = None,
      research_hints = None, implementation_suggestions = None,
      risks_and_challenges = None, required_resources = None,
      estimated_difficulty = None, estimated_timeline = None, suggested_topics = None,
      evidence_anchors = None\<rparr>"

definition create_gap_record :: "'c collaborators_scheme \<Rightarrow> (task_state, unit) action" where
  "create_gap_record env =
     bindM (session_commit env) (\<lambda>_.
     bindM (session_refresh env) (\<lambda>row_id.
     modify_gap (\<lambda>r. r\<lparr>rg_id := Some row_id\<rparr>)))"

text \<open>
  \<open>_process_single_gap\<close>: the result is the record of a gap found valid, \<open>None\<close> for a
  gap found invalid and for every exception. The final state is returned with it.
\<close>

definition process_single_gap_try ::
  "'c collaborators_scheme \<Rightarrow> InitialGap \<Rightarrow> (task_state, ResearchGap option) action"
where
  "process_single_gap_try env gap =
     bindM (create_gap_record env) (\<lambda>_.
     bindM (validate_gap env gap) (\<lambda>is_valid.
     if is_valid then
       bindM (expand_gap_details env gap) (\<lambda>_.
       bindM get_gap (\<lambda>r.
       returnM (Some r)))
     else returnM None))"

definition process_single_gap ::
  "'c collaborators_scheme \<Rightarrow> string \<Rightarrow> InitialGap \<Rightarrow> nat
     \<Rightarrow> (exn + ResearchGap option) \<times> task_state"
where
  "process_single_gap env analysis_id gap index =
     catchM (process_single_gap_try env gap) (\<lambda>e. returnM None)
       \<lparr>trace = [], gap_record = new_gap_record env analysis_id gap index,
        validation_papers = [], topics = []\<rparr>"

section \<open>GapAnalysisService: one run\<close>

text \<open>
  \<open>GapAnalysisRequest\<close> as \<open>gap_schemas.py\<close> declares it: the fields are \<open>paperId\<close>,
  \<open>paperExtractionId\<close>, \<open>correlationId\<close>, \<open>requestId\<close> and \<open>config\<close>; the class declares no
  alias. Reading an attribute that the class does not have raises \<open>AttributeError\<close>, so
  the read of a string attribute by name is a function of the name.
\<close>

record GapAnalysisRequest =
  paperId :: string
  paperExtractionId :: string
  correlationId :: string
  requestId :: string
  config :: "str_dict option"

definition request_attribute :: "GapAnalysisRequest \<Rightarrow> string \<Rightarrow> exn + string" where
  "request_attribute request attr =
     (if attr = ''paperId'' then Inr (paperId request)
      else if attr = ''paperExtractionId'' then Inr (paperExtractionId request)
      else if attr = ''correlationId'' then Inr (correlationId request)
      else if attr = ''requestId'' then Inr (requestId request)
      else Inl (AttributeError ''GapAnalysisRequest'' attr))"

text \<open>The row \<open>GapAnalysis\<close> of a run, and the response classes of \<open>gap_schemas.py\<close>.\<close>

datatype GapStatus = PROCESSING | COMPLETED | FAILED

record GapAnalysis =
  ga_id :: "string option"
  ga_paper_id :: string
  ga_paper_extraction_id :: string
  ga_correlation_id :: string
  ga_request_id :: string
  status :: GapStatus
  started_at :: nat
  ga_config :: "str_dict option"
  total_gaps_identified :: "int option"
  valid_gaps_count :: "int option"
  invalid_gaps_count :: "int option"
  completed_at :: "nat option"
  error_message :: "string option"

record ResearchTopic =
  rt_title :: string
  rt_description :: string
  rt_research_questions :: "string list"
  rt_methodology_suggestions :: "string option"
  rt_expected_outcomes :: "string option"
  relevance_score :: real

record GapDetail =
  gd_gap_id :: string
  gd_name :: string
  gd_description :: string
  gd_category :: string
  gd_validation_status :: GapValidationStatus
  confidence_score :: real
  gd_potential_impact :: "string option"
  gd_research_hints :: "string option"
  gd_implementation_suggestions :: "string option"
  gd_risks_and_challenges :: "string option"
  gd_required_resources :: "string option"
  gd_estimated_difficulty :: "string option"
  gd_estimated_timeline :: "string option"
  gd_evidence_anchors :: "evidence_anchor list"
  supporting_papers_count :: nat
  conflicting_papers_count :: nat
  gd_suggested_topics :: "ResearchTopic list"

record GapAnalysisResponse =
  resp_request_id :: string
  resp_correlation_id :: string
  resp_status :: string
  resp_message :: string
  resp_gap_analysis_id :: "string option"
  resp_total_gaps :: int
  resp_valid_gaps :: int
  resp_gaps :: "GapDetail list option"
  resp_error :: "string option"
  resp_completed_at :: "nat option"

text \<open>
  The collaborators of a run: those of a task, and in addition the outcome of
  \<open>_fetch_paper_data\<close> (the paper data, \<open>None\<close> for a paper that is not stored, and the
  extracted content), \<open>parse_json_safely\<close> with the \<open>InitialGap\<close> constructors on the
  response of the first prompt, the topics that the session returns for a gap, the two
  \<open>close\<close> calls, and the collaborators of the task of each gap.
\<close>

record run_collaborators = collaborators +
  fetch_paper_data :: "string \<Rightarrow> string \<Rightarrow> exn + (string option \<times> string)"
  parse_initial_gaps :: "string \<Rightarrow> exn + InitialGap list"
  select_topics :: "ResearchGap \<Rightarrow> exn + GapTopic list"
  close_search_service :: "exn option"
  close_grobid_client :: "exn option"
  gap_collaborators :: "nat \<Rightarrow> collaborators"

text \<open>The state of a run: the local variable \<open>analysis\<close> and the calls made.\<close>

record run_state = traced +
  analysis :: "GapAnalysis option"

definition modify_analysis :: "(GapAnalysis \<Rightarrow> GapAnalysis) \<Rightarrow> (run_state, unit) action" where
  "modify_analysis f = (\<lambda>s. (Inr (), s\<lparr>analysis := map_option f (analysis s)\<rparr>))"

text \<open>
  \<open>_create_gap_analysis\<close>: the keyword arguments of the constructor are evaluated in the
  order written, then the row is committed and refreshed.
\<close>

definition create_gap_analysis ::
  "'c run_collaborators_scheme \<Rightarrow> GapAnalysisRequest \<Rightarrow> (run_state, GapAnalysis) action"
where
  "create_gap_analysis env request =
     bindM (liftE (request_attribute request ''paper_id'')) (\<lambda>paper_id.
     bindM (liftE (request_attribute request ''paper_extraction_id'')) (\<lambda>paper_extraction_id.
     bindM (liftE (request_attribute request ''correlation_id'')) (\<lambda>correlation_id.
     bindM (liftE (request_attribute request ''request_id'')) (\<lambda>request_id.
     bindM (utc_now env) (\<lambda>t.
     bindM (session_commit env) (\<lambda>_.
     bindM (session_refresh env) (\<lambda>row_id.
     returnM
       \<lparr>ga_id = Some row_id, ga_paper_id = paper_id,
        ga_paper_extraction_id = paper_extraction_id, ga_correlation_id = correlation_id,
        ga_request_id = request_id, status = PROCESSING, started_at = t,
        ga_config = config request, total_gaps_identified = None, valid_gaps_count = None,
        invalid_gaps_count = None, completed_at = None, error_message = None\<rparr>)))))))"

definition fetch_paper ::
  "'c run_collaborators_scheme \<Rightarrow> string \<Rightarrow> string
     \<Rightarrow> ('z traced_scheme, string option \<times> string) action"
where
  "fetch_paper env paper_id extraction_id = (\<lambda>s.
     (fetch_paper_data env paper_id extraction_id, s\<lparr>trace := trace s @ [FetchPaperData]\<rparr>))"

text \<open>
  \<open>GeminiService.generate_initial_gaps\<close>, decorated with
  \<open>retry_async(max_attempts=3, delay=2)\<close>; its handler returns the empty list.
\<close>

definition generate_initial_gaps ::
  "'c run_collaborators_scheme \<Rightarrow> string \<Rightarrow> string \<Rightarrow> ('z traced_scheme, InitialGap list) action"
where
  "generate_initial_gaps env paper_data extracted_content =
     retry_async 3
       (catchM
          (bindM rate_limiter_wait (\<lambda>_.
           bindM (model_generate_content env InitialGapsPrompt) (\<lambda>text.
           liftE (parse_initial_gaps env text))))
          (\<lambda>e. returnM []))"

text \<open>
  Modelled from the spec: \<open>AsyncBatchProcessor.process\<close> of \<open>app/utils/helpers.py\<close>, which
  is not among the sources. The results come back in the order of submission, and a task
  that fails gives \<open>None\<close> in its place. Each task runs against its own collaborators.
\<close>

definition batch_process :: "(exn + 'a option) list \<Rightarrow> 'a option list" where
  "batch_process outcomes = map (\<lambda>r. case r of Inl e \<Rightarrow> None | Inr v \<Rightarrow> v) outcomes"

definition process_gaps ::
  "'c run_collaborators_scheme \<Rightarrow> string \<Rightarrow> InitialGap list \<Rightarrow> ResearchGap option list"
where
  "process_gaps env analysis_id initial_gaps =
     batch_process
       (map (\<lambda>(i, gap). fst (process_single_gap (gap_collaborators env i) analysis_id gap i))
          (enumerate 0 initial_gaps))"

text \<open>The assignments of \<open>_update_analysis_summary\<close> and of \<open>_mark_analysis_failed\<close>.\<close>

definition summary_fields :: "int \<Rightarrow> int \<Rightarrow> nat \<Rightarrow> GapAnalysis \<Rightarrow> GapAnalysis" where
  "summary_fields total_gaps valid_gaps t a =
     a\<lparr>total_gaps_identified := Some total_gaps, valid_gaps_count := Some valid_gaps,
       invalid_gaps_count := Some (total_gaps - valid_gaps), status := COMPLETED,
       completed_at := Some t\<rparr>"

definition update_analysis_summary ::
  "'c run_collaborators_scheme \<Rightarrow> int \<Rightarrow> int \<Rightarrow> (run_state, unit) action"
where
  "update_analysis_summary env total_gaps valid_gaps =
     bindM (utc_now env) (\<lambda>t.
     bindM (modify_analysis (summary_fields total_gaps valid_gaps t)) (\<lambda>_.
     session_commit env))"

definition failed_fields :: "string \<Rightarrow> nat \<Rightarrow> GapAnalysis \<Rightarrow> GapAnalysis" where
  "failed_fields err t a =
     a\<lparr>status := FAILED, error_message := Some err, completed_at := Some t\<rparr>"

definition mark_analysis_failed ::
  "'c run_collaborators_scheme \<Rightarrow> string \<Rightarrow> (run_state, unit) action"
where
  "mark_analysis_failed env err =
     bindM (utc_now env) (\<lambda>t.
     bindM (modify_analysis (failed_fields err t)) (\<lambda>_.
     session_commit env))"

text \<open>
  \<open>_prepare_response\<close>. The expression \<open>x or 0.5\<close> on an optional float gives 0.5 for
  \<open>None\<close> and for zero. The constructors of \<open>ResearchTopic\<close>, \<open>GapDetail\<close> and
  \<open>GapAnalysisResponse\<close> validate their arguments: a required \<open>str\<close> or \<open>int\<close> field and a
  value of a \<open>Dict[str, str]\<close> do not accept \<open>None\<close>.
\<close>

definition float_or :: "real option \<Rightarrow> real \<Rightarrow> real" where
  "float_or x d = (case x of None \<Rightarrow> d | Some v \<Rightarrow> if v = 0 then d else v)"

definition research_topic_of :: "GapTopic \<Rightarrow> exn + ResearchTopic" where
  "research_topic_of topic =
     (case gt_title topic of
        None \<Rightarrow> Inl (ValidationError ''ResearchTopic: title'')
      | Some t \<Rightarrow>
          (case gt_description topic of
             None \<Rightarrow> Inl (ValidationError ''ResearchTopic: description'')
           | Some d \<Rightarrow>
               Inr \<lparr>rt_title = t, rt_description = d,
                    rt_research_questions =
                      (case gt_research_questions topic of None \<Rightarrow> [] | Some qs \<Rightarrow> qs),
                    rt_methodology_suggestions = gt_methodology_suggestions topic,
                    rt_expected_outcomes = gt_expected_outcomes topic,
                    relevance_score = float_or (gt_relevance_score topic) (5 / 10)\<rparr>))"

text \<open>A list comprehension whose element expression can raise.\<close>

fun map_results :: "('a \<Rightarrow> exn + 'b) \<Rightarrow> 'a list \<Rightarrow> exn + 'b list" where
  "map_results f [] = Inr []"
| "map_results f (x # xs) =
     (case f x of
        Inl e \<Rightarrow> Inl e
      | Inr y \<Rightarrow> (case map_results f xs of Inl e \<Rightarrow> Inl e | Inr ys \<Rightarrow> Inr (y # ys)))"

definition list_or_empty :: "'a list option \<Rightarrow> 'a list" where
  "list_or_empty xs = (case xs of None \<Rightarrow> [] | Some ys \<Rightarrow> ys)"

definition gap_detail_of :: "ResearchGap \<Rightarrow> ResearchTopic list \<Rightarrow> exn + GapDetail" where
  "gap_detail_of gap research_topics =
     (if \<exists>a \<in> set (list_or_empty (evidence_anchors gap)). ea_title a = None
      then Inl (ValidationError ''GapDetail: evidence_anchors'')
      else Inr
        \<lparr>gd_gap_id = rg_gap_id gap, gd_name = rg_name gap,
         gd_description = rg_description gap, gd_category = rg_category gap,
         gd_validation_status = validation_status gap,
         confidence_score = float_or (validation_confidence gap) (5 / 10),
         gd_potential_impact = potential_impact gap,
         gd_research_hints = research_hints gap,
         gd_implementation_suggestions = implementation_suggestions gap,
         gd_risks_and_challenges = risks_and_challenges gap,
         gd_required_resources = required_resources gap,
         gd_estimated_difficulty = estimated_difficulty gap,
         gd_estimated_timeline = estimated_timeline gap,
         gd_evidence_anchors = list_or_empty (evidence_anchors gap),
         supporting_papers_count = length (list_or_empty (supporting_papers gap)),
         conflicting_papers_count = length (list_or_empty (conflicting_papers gap)),
         gd_suggested_topics = research_topics\<rparr>)"

definition session_select_topics ::
  "'c run_collaborators_scheme \<Rightarrow> ResearchGap \<Rightarrow> ('z traced_scheme, GapTopic list) action"
where
  "session_select_topics env gap = (\<lambda>s.
     (select_topics env gap, s\<lparr>trace := trace s @ [SessionExecute]\<rparr>))"

text \<open>The loop of \<open>_prepare_response\<close> over the valid gaps.\<close>

fun gap_details ::
  "'c run_collaborators_scheme \<Rightarrow> ResearchGap list \<Rightarrow> ('z traced_scheme, GapDetail list) action"
where
  "gap_details env [] = returnM []"
| "gap_details env (gap # rest) =
     bindM (session_select_topics env gap) (\<lambda>topics.
     bindM (liftE (map_results research_topic_of topics)) (\<lambda>research_topics.
     bindM (liftE (gap_detail_of gap research_topics)) (\<lambda>gap_detail.
     bindM (gap_details env rest) (\<lambda>details.
     returnM (gap_detail # details)))))"

text \<open>The decimal numeral of a natural number, for the f-string of the message.\<close>

function string_of_nat :: "nat \<Rightarrow> string" where
  "string_of_nat n =
     (if n < 10 then [''0123456789'' ! n]
      else string_of_nat (n div 10) @ [''0123456789'' ! (n mod 10)])"
  by pat_completeness auto
termination
  by (relation "measure id") auto

declare string_of_nat.simps [simp del]

definition success_response :: "GapAnalysis \<Rightarrow> nat \<Rightarrow> GapDetail list \<Rightarrow> exn + GapAnalysisResponse"
where
  "success_response a n details =
     (case total_gaps_identified a of
        None \<Rightarrow> Inl (ValidationError ''GapAnalysisResponse: total_gaps'')
      | Some total_gaps \<Rightarrow>
          (case valid_gaps_count a of
             None \<Rightarrow> Inl (ValidationError ''GapAnalysisResponse: valid_gaps'')
           | Some valid_gaps \<Rightarrow>
               Inr \<lparr>resp_request_id = ga_request_id a,
                    resp_correlation_id = ga_correlation_id a,
                    resp_status = ''SUCCESS'',
                    resp_message = ''Successfully identified '' @ string_of_nat n
                                   @ '' valid research gaps'',
                    resp_gap_analysis_id = Some (case ga_id a of None \<Rightarrow> ''None'' | Some i \<Rightarrow> i),
                    resp_total_gaps = total_gaps, resp_valid_gaps = valid_gaps,
                    resp_gaps = Some details, resp_error = None,
                    resp_completed_at = completed_at a\<rparr>))"

definition prepare_response ::
  "'c run_collaborators_scheme \<Rightarrow> GapAnalysis \<Rightarrow> ResearchGap list
     \<Rightarrow> ('z traced_scheme, GapAnalysisResponse) action"
where
  "prepare_response env a valid_gaps =
     bindM (gap_details env valid_gaps) (\<lambda>details.
     liftE (success_response a (length valid_gaps) details))"

text \<open>
  \<open>analyze_paper\<close>: the \<open>try\<close> block, the handler, the \<open>finally\<close> block and the function.
  \<open>finallyM\<close> runs the cleanup after the body on every path; an exception of the cleanup
  replaces the outcome of the body.
\<close>

definition get_analysis :: "(run_state, GapAnalysis) action" where
  "get_analysis = (\<lambda>s.
     case analysis s of
       None \<Rightarrow> (Inl (AttributeError ''NoneType'' ''id''), s)
     | Some a \<Rightarrow> (Inr a, s))"

definition set_analysis :: "GapAnalysis \<Rightarrow> (run_state, unit) action" where
  "set_analysis a = (\<lambda>s. (Inr (), s\<lparr>analysis := Some a\<rparr>))"

definition valid_results :: "'a option list \<Rightarrow> 'a list" where
  "valid_results gap_results = concat (map (\<lambda>r. case r of None \<Rightarrow> [] | Some g \<Rightarrow> [g]) gap_results)"

text \<open>
  The last two steps of the \<open>try\<close> block: the summary update and the assembly of the
  response from the valid gaps.
\<close>

definition summarize_and_respond ::
  "'c run_collaborators_scheme \<Rightarrow> InitialGap list \<Rightarrow> ResearchGap option list
     \<Rightarrow> (run_state, GapAnalysisResponse) action"
where
  "summarize_and_respond env initial_gaps gap_results =
     bindM (update_analysis_summary env (int (length initial_gaps))
              (int (length (valid_results gap_results)))) (\<lambda>_.
     bindM get_analysis (\<lambda>a.
     prepare_response env a (valid_results gap_results)))"

definition analyze_paper_try ::
  "'c run_collaborators_scheme \<Rightarrow> GapAnalysisRequest \<Rightarrow> (run_state, GapAnalysisResponse) action"
where
  "analyze_paper_try env request =
     bindM (create_gap_analysis env request) (\<lambda>created.
     bindM (set_analysis created) (\<lambda>_.
     bindM (liftE (request_attribute request ''paper_id'')) (\<lambda>paper_id.
     bindM (liftE (request_attribute request ''paper_extraction_id'')) (\<lambda>paper_extraction_id.
     bindM (fetch_paper env paper_id paper_extraction_id) (\<lambda>(paper_data, extracted_content).
     case paper_data of
       None \<Rightarrow> raiseM (ValueError ''Paper not found'')
     | Some paper \<Rightarrow>
         bindM (generate_initial_gaps env paper extracted_content) (\<lambda>initial_gaps.
         if initial_gaps = [] then raiseM (ValueError ''No gaps could be identified'')
         else
           bindM (returnM (process_gaps env (case ga_id created of None \<Rightarrow> [] | Some i \<Rightarrow> i)
                    initial_gaps)) (\<lambda>gap_results.
           summarize_and_respond env initial_gaps gap_results)))))))"

definition failed_response :: "GapAnalysisRequest \<Rightarrow> exn \<Rightarrow> exn + GapAnalysisResponse" where
  "failed_response request e =
     (case request_attribute request ''request_id'' of
        Inl err \<Rightarrow> Inl err
      | Inr request_id \<Rightarrow>
          (case request_attribute request ''correlation_id'' of
             Inl err \<Rightarrow> Inl err
           | Inr correlation_id \<Rightarrow>
               Inr \<lparr>resp_request_id = request_id, resp_correlation_id = correlation_id,
                    resp_status = ''FAILED'',
                    resp_message = ''Analysis failed: '' @ str_exn e,
                    resp_gap_analysis_id = None, resp_total_gaps = 0, resp_valid_gaps = 0,
                    resp_gaps = None, resp_error = Some (str_exn e),
                    resp_completed_at = None\<rparr>))"

definition analyze_paper_except ::
  "'c run_collaborators_scheme \<Rightarrow> GapAnalysisRequest \<Rightarrow> exn
     \<Rightarrow> (run_state, GapAnalysisResponse) action"
where
  "analyze_paper_except env request e =
     bindM (\<lambda>s. case analysis s of
                  None \<Rightarrow> (Inr (), s)
                | Some a \<Rightarrow> mark_analysis_failed env (str_exn e) s) (\<lambda>_.
     liftE (failed_response request e))"

definition close_clients :: "'c run_collaborators_scheme \<Rightarrow> ('z traced_scheme, unit) action" where
  "close_clients env =
     bindM (\<lambda>s. (case close_search_service env of None \<Rightarrow> Inr () | Some e \<Rightarrow> Inl e,
                 s\<lparr>trace := trace s @ [CloseSearchService]\<rparr>)) (\<lambda>_.
     (\<lambda>s. (case close_grobid_client env of None \<Rightarrow> Inr () | Some e \<Rightarrow> Inl e,
           s\<lparr>trace := trace s @ [CloseGrobidClient]\<rparr>)))"

definition finallyM :: "('s, 'a) action \<Rightarrow> ('s, unit) action \<Rightarrow> ('s, 'a) action" where
  "finallyM body cleanup = (\<lambda>s.
     case body s of
       (r, s') \<Rightarrow> (case cleanup s' of (Inl e, s'') \<Rightarrow> (Inl e, s'') | (Inr u, s'') \<Rightarrow> (r, s'')))"

definition analyze_paper ::
  "'c run_collaborators_scheme \<Rightarrow> GapAnalysisRequest \<Rightarrow> (exn + GapAnalysisResponse) \<times> run_state"
where
  "analyze_paper env request =
     finallyM (catchM (analyze_paper_try env request) (analyze_paper_except env request))
       (close_clients env) \<lparr>trace = [], analysis = None\<rparr>"

text \<open>Sample values used to run the definitions on concrete inputs.\<close>

definition paper_titled :: "string \<Rightarrow> PaperSearchResult" where
  "paper_titled t = \<lparr>title = t, abstract = None, doi = None, url = None, pdf_url = None,
     publication_date = None, authors = [], venue = None\<rparr>"

definition exact_match_helpers :: helpers where
  "exact_match_helpers = \<lparr>clean_text = (\<lambda>s. s), lower = (\<lambda>s. s),
     calculate_similarity = (\<lambda>a b. if a = b then 1 else 0)\<rparr>"

definition quiet_collaborators :: collaborators where
  "quiet_collaborators =
     \<lparr>commit_outcome = (\<lambda>k. None),
      refresh_outcome = (\<lambda>k. Inr ''row-1''),
      generate_content =
        (\<lambda>p k. Inr ('' '' @ [CHR 0x22] @ ''research gaps'' @ [CHR 0x22] @ '' '')),
      parse_validation_result = (\<lambda>text. Inl (ValidationError ''ValidationResult: is_valid'')),
      parse_expanded_details = (\<lambda>text. unavailable_details),
      provider_search = (\<lambda>p query limit.
        case p of
          SemanticScholar \<Rightarrow> Inl (CollaboratorError ''timeout'')
        | Crossref \<Rightarrow> Inr [paper_titled ''gaps'']
        | Arxiv \<Rightarrow> Inr [paper_titled ''gaps'',
                         (paper_titled ''maps'')\<lparr>pdf_url := Some ''http://arxiv/maps.pdf''\<rparr>]),
      extract_from_url = (\<lambda>pdf. Raised (CollaboratorError ''grobid down'')),
      now = (\<lambda>n. n),
      uuid4 = ''uuid-1'',
      text_helpers = exact_match_helpers\<rparr>"

definition quiet_run_collaborators :: run_collaborators where
  "quiet_run_collaborators =
     \<lparr>commit_outcome = (\<lambda>k. None),
      refresh_outcome = (\<lambda>k. Inr ''run-1''),
      generate_content = (\<lambda>p k. Inr ''[...]''),
      parse_validation_result = (\<lambda>text. Inl (ValidationError ''ValidationResult: is_valid'')),
      parse_expanded_details = (\<lambda>text. unavailable_details),
      provider_search = (\<lambda>p query limit. Inr []),
      extract_from_url = (\<lambda>pdf. Raised (CollaboratorError ''grobid down'')),
      now = (\<lambda>n. n),
      uuid4 = ''uuid-0'',
      text_helpers = exact_match_helpers,
      fetch_paper_data = (\<lambda>paper_id extraction_id. Inr (Some ''paper'', ''content'')),
      parse_initial_gaps = (\<lambda>text. Inr []),
      select_topics = (\<lambda>gap.
        Inr [\<lparr>gt_research_gap_id = rg_id gap, gt_title = Some ''topic'',
              gt_description = Some ''a direction'', gt_research_questions = None,
              gt_methodology_suggestions = None, gt_expected_outcomes = None,
              gt_relevance_score = Some 0\<rparr>]),
      close_search_service = None,
      close_grobid_client = None,
      gap_collaborators = (\<lambda>i. quiet_collaborators)\<rparr>"

definition sample_gap :: InitialGap where
  "sample_gap =
     \<lparr>name = ''Scalability'', description = ''No evaluation at scale'',
      category = ''empirical'', reasoning = ''Only small inputs are measured'',
      evidence = ''Section 5''\<rparr>"

definition sample_request :: GapAnalysisRequest where
  "sample_request =
     \<lparr>paperId = ''P1'', paperExtractionId = ''E1'', correlationId = ''c-1'',
      requestId = ''r-1'', config = None\<rparr>"

definition sample_analysis :: GapAnalysis where
  "sample_analysis =
     \<lparr>ga_id = Some ''run-1'', ga_paper_id = ''P1'', ga_paper_extraction_id = ''E1'',
      ga_correlation_id = ''c-1'', ga_request_id = ''r-1'', status = COMPLETED,
      started_at = 0, ga_config = None, total_gaps_identified = Some 1,
      valid_gaps_count = Some 1, invalid_gaps_count = Some 0, completed_at = Some 7,
      error_message = None\<rparr>"

definition zero_confidence_gap :: ResearchGap where
  "zero_confidence_gap =
     (new_gap_record quiet_collaborators ''run-1'' sample_gap 0)
       \<lparr>rg_id := Some ''row-1'', validation_status := VALID, validation_confidence := Some 0\<rparr>"

text \<open>
  The results of a provider as \<open>search_papers\<close> merges them, and the outcome and the calls
  of the task that \<open>extract_batch\<close> builds for a paper.
\<close>

definition provider_results :: "exn + PaperSearchResult list \<Rightarrow> PaperSearchResult list" where
  "provider_results r = (case r of Inl e \<Rightarrow> [] | Inr rs \<Rightarrow> rs)"

definition extraction_outcome ::
  "'c collaborators_scheme \<Rightarrow> PaperSearchResult \<Rightarrow> ExtractedContent task_outcome"
where
  "extraction_outcome env paper =
     (if truthy (pdf_url paper) then extract_from_url env (the (pdf_url paper))
      else Returned (create_extraction_from_metadata paper))"

definition extraction_events :: "PaperSearchResult \<Rightarrow> event list" where
  "extraction_events paper =
     (if truthy (pdf_url paper) then [ExtractFromUrl (the (pdf_url paper))] else [])"

text \<open>
  The values that the steps of \<open>_validate_gap\<close> compute from the answers of the
  collaborators: the search query after \<open>n\<close> earlier query prompts, the results that
  survive the search for a query, and the verdict after \<open>n\<close> earlier verdict prompts.
\<close>

definition generated_query :: "'c collaborators_scheme \<Rightarrow> InitialGap \<Rightarrow> nat \<Rightarrow> string" where
  "generated_query env gap n =
     (case generate_content env QueryPrompt n of
        Inl e \<Rightarrow> name gap @ '' '' @ category gap
      | Inr text \<Rightarrow> py_strip (\<lambda>c. c = CHR 0x22) (py_strip is_whitespace text))"

definition surviving_results :: "'c collaborators_scheme \<Rightarrow> string \<Rightarrow> PaperSearchResult list"
where
  "surviving_results env query =
     slice_upto 10 (deduplicate_results (text_helpers env)
       (provider_results (provider_search env SemanticScholar query 10)
        @ provider_results (provider_search env Crossref query 10)
        @ provider_results (provider_search env Arxiv query 10)))"

definition verdict_of :: "'c collaborators_scheme \<Rightarrow> nat \<Rightarrow> ValidationResult" where
  "verdict_of env n =
     (case generate_content env VerdictPrompt n of
        Inl e \<Rightarrow> default_validation
      | Inr text \<Rightarrow>
          (case parse_validation_result env text of
             Inl e \<Rightarrow> default_validation
           | Inr validation_result \<Rightarrow> validation_result))"

definition fresh_task :: "'c collaborators_scheme \<Rightarrow> task_state" where
  "fresh_task env =
     \<lparr>trace = [], gap_record = new_gap_record env ''run-1'' sample_gap 0,
      validation_papers = [], topics = []\<rparr>"

definition sample_verdict :: "bool \<Rightarrow> bool \<Rightarrow> ValidationResult" where
  "sample_verdict v m =
     \<lparr>is_valid = v, confidence = 9 / 10,
      vr_reasoning = ''One paper measures larger inputs'', should_modify = m,
      modification_suggestion = Some ''No evaluation beyond a single machine'',
      vr_supporting_papers = [[(''title'', ''gaps''), (''reason'', ''same limitation'')]],
      vr_conflicting_papers = []\<rparr>"

definition verdict_collaborators :: "ValidationResult \<Rightarrow> collaborators" where
  "verdict_collaborators vr = quiet_collaborators\<lparr>parse_validation_result := (\<lambda>text. Inr vr)\<rparr>"

definition lost_database :: collaborators where
  "lost_database =
     quiet_collaborators\<lparr>commit_outcome := (\<lambda>k. Some (CollaboratorError ''connection lost''))\<rparr>"

definition flaky_database :: collaborators where
  "flaky_database =
     quiet_collaborators\<lparr>commit_outcome :=
       (\<lambda>k. if k = 0 then Some (CollaboratorError ''connection lost'') else None)\<rparr>"

definition exhausted_model :: collaborators where
  "exhausted_model =
     quiet_collaborators\<lparr>generate_content :=
       (\<lambda>p k. if p = VerdictPrompt then Inl (CollaboratorError ''quota exceeded'')
               else Inr ''research gaps'')\<rparr>"

definition unreachable_model :: collaborators where
  "unreachable_model =
     quiet_collaborators\<lparr>generate_content :=
       (\<lambda>p k. Inl (CollaboratorError ''quota exceeded''))\<rparr>"

definition failing_topics_run :: run_collaborators where
  "failing_topics_run =
     quiet_run_collaborators\<lparr>select_topics :=
       (\<lambda>gap. Inl (CollaboratorError ''connection lost''))\<rparr>"


definition late_commit_failure :: "ValidationResult \<Rightarrow> collaborators" where
  "late_commit_failure vr =
     (verdict_collaborators vr)\<lparr>commit_outcome :=
       (\<lambda>k. if k = 2 then Some (CollaboratorError ''connection lost'') else None)\<rparr>"

definition lost_after_creation :: collaborators where
  "lost_after_creation =
     quiet_collaborators\<lparr>commit_outcome :=
       (\<lambda>k. if k = 0 then None else Some (CollaboratorError ''connection lost''))\<rparr>"

text \<open>The state of the task of a gap when \<open>_create_gap_record\<close> has returned.\<close>

definition created_task ::
  "'c collaborators_scheme \<Rightarrow> string \<Rightarrow> InitialGap \<Rightarrow> nat \<Rightarrow> string \<Rightarrow> task_state"
where
  "created_task env analysis_id gap index row_id =
     \<lparr>trace = [SessionCommit, SessionRefresh],
      gap_record = (new_gap_record env analysis_id gap index)\<lparr>rg_id := Some row_id\<rparr>,
      validation_papers = [], topics = []\<rparr>"

text \<open>No later title of the list is similar beyond 0.8 to an earlier one.\<close>

definition titles_apart :: "helpers \<Rightarrow> PaperSearchResult list \<Rightarrow> bool" where
  "titles_apart h out \<longleftrightarrow> (\<forall>j < length out. \<forall>i < j.
      calculate_similarity h (normalized_title h (out ! j)) (normalized_title h (out ! i)) \<le> 8 / 10)"

section \<open>Properties of the deduplication\<close>

lemma is_duplicate_iff:
  "is_duplicate h t es \<longleftrightarrow>
     (\<exists>e \<in> set es. calculate_similarity h t (normalized_title h e) > 8 / 10)"
  by (induction es) auto

lemma dedup_loop_snoc:
  "dedup_loop h u (rs @ [r]) =
     (if is_duplicate h (normalized_title h r) (dedup_loop h u rs)
      then dedup_loop h u rs else dedup_loop h u rs @ [r])"
  by (induction rs arbitrary: u) auto

lemma dedup_loop_append:
  "\<exists>ys. dedup_loop h u rs = u @ ys \<and> subseq ys rs"
proof (induction rs arbitrary: u)
  case Nil
  then show ?case by simp
next
  case (Cons r rs)
  show ?case
  proof (cases "is_duplicate h (normalized_title h r) u")
    case True
    from Cons.IH [of u] obtain ys where "dedup_loop h u rs = u @ ys" "subseq ys rs" by blast
    with True show ?thesis by (auto intro: subseq_Cons')
  next
    case False
    from Cons.IH [of "u @ [r]"] obtain ys
      where "dedup_loop h (u @ [r]) rs = (u @ [r]) @ ys" "subseq ys rs"
      by blast
    with False show ?thesis by auto
  qed
qed

lemma titles_apart_snoc:
  assumes "titles_apart h u" "\<not> is_duplicate h (normalized_title h r) u"
  shows "titles_apart h (u @ [r])"
  using assms unfolding titles_apart_def is_duplicate_iff
  by (auto simp: nth_append less_Suc_eq not_less)

lemma titles_apart_loop: "titles_apart h u \<Longrightarrow> titles_apart h (dedup_loop h u rs)"
  by (induction rs arbitrary: u) (auto intro: titles_apart_snoc)

lemma dedup_first_kept:
  "\<exists>out. deduplicate_results h (r # rs) = r # out"
  using dedup_loop_append [of h "[r]" rs] by (auto simp: deduplicate_results_def)

text \<open>
  C3. The output of \<open>_deduplicate_results\<close> is a subsequence of its input in input order.
  A result appended to the input is dropped exactly when its normalized title is similar
  beyond 0.8 (strictly) to the normalized title of a result accepted before it, and is
  accepted otherwise. The first result of a non-empty input is kept. In the output, the
  similarity the code computes (a later title against an earlier one) is at most 0.8 for
  every pair, and for every pair in both orders when the similarity is symmetric.
\<close>

theorem deduplicate_results_spec:
  "subseq (deduplicate_results h rs) rs
   \<and> deduplicate_results h (rs @ [r]) =
       (if \<exists>e \<in> set (deduplicate_results h rs).
             calculate_similarity h (normalized_title h r) (normalized_title h e) > 8 / 10
        then deduplicate_results h rs
        else deduplicate_results h rs @ [r])
   \<and> (rs \<noteq> [] \<longrightarrow> deduplicate_results h rs \<noteq> [] \<and> hd (deduplicate_results h rs) = hd rs)
   \<and> (\<forall>j < length (deduplicate_results h rs). \<forall>i < j.
        calculate_similarity h (normalized_title h (deduplicate_results h rs ! j))
          (normalized_title h (deduplicate_results h rs ! i)) \<le> 8 / 10)
   \<and> ((\<forall>a b. calculate_similarity h a b = calculate_similarity h b a) \<longrightarrow>
        (\<forall>j < length (deduplicate_results h rs).
           \<forall>i < length (deduplicate_results h rs). i \<noteq> j \<longrightarrow>
             calculate_similarity h (normalized_title h (deduplicate_results h rs ! j))
               (normalized_title h (deduplicate_results h rs ! i)) \<le> 8 / 10))"
proof -
  let ?out = "deduplicate_results h rs"
  have sub: "subseq ?out rs"
    using dedup_loop_append [of h "[]" rs] by (auto simp: deduplicate_results_def)
  have step: "deduplicate_results h (rs @ [r]) =
       (if \<exists>e \<in> set ?out.
             calculate_similarity h (normalized_title h r) (normalized_title h e) > 8 / 10
        then ?out else ?out @ [r])"
    unfolding deduplicate_results_def dedup_loop_snoc is_duplicate_iff ..
  have first: "rs \<noteq> [] \<longrightarrow> ?out \<noteq> [] \<and> hd ?out = hd rs"
  proof (cases rs)
    case Nil
    then show ?thesis by simp
  next
    case (Cons x xs)
    with dedup_first_kept [of h x xs] show ?thesis by auto
  qed
  have "titles_apart h ?out"
    unfolding deduplicate_results_def by (rule titles_apart_loop) (simp add: titles_apart_def)
  then have apart: "\<forall>j < length ?out. \<forall>i < j.
        calculate_similarity h (normalized_title h (?out ! j)) (normalized_title h (?out ! i))
          \<le> 8 / 10"
    by (simp add: titles_apart_def)
  have sym: "(\<forall>a b. calculate_similarity h a b = calculate_similarity h b a) \<longrightarrow>
        (\<forall>j < length ?out. \<forall>i < length ?out. i \<noteq> j \<longrightarrow>
        calculate_similarity h (normalized_title h (?out ! j)) (normalized_title h (?out ! i))
          \<le> 8 / 10)"
  proof (intro impI allI)
    fix j i
    assume s: "\<forall>a b. calculate_similarity h a b = calculate_similarity h b a"
      and j: "j < length ?out" and i: "i < length ?out" and ne: "i \<noteq> j"
    show "calculate_similarity h (normalized_title h (?out ! j)) (normalized_title h (?out ! i))
            \<le> 8 / 10"
    proof (cases "i < j")
      case True
      with apart j show ?thesis by blast
    next
      case False
      with ne have "j < i" by simp
      with apart i
      have "calculate_similarity h (normalized_title h (?out ! i)) (normalized_title h (?out ! j))
              \<le> 8 / 10"
        by blast
      with s show ?thesis by metis
    qed
  qed
  from sub step first apart sym show ?thesis by blast
qed

theorem deduplicate_results_spec_witness:
  "deduplicate_results exact_match_helpers
      ([paper_titled ''gaps'', paper_titled ''gaps'', paper_titled ''maps'']
         @ [paper_titled ''maps''])
     = [paper_titled ''gaps'', paper_titled ''maps'']
   \<and> [paper_titled ''gaps'', paper_titled ''gaps'', paper_titled ''maps''] \<noteq> []
   \<and> hd (deduplicate_results exact_match_helpers
        [paper_titled ''gaps'', paper_titled ''gaps'', paper_titled ''maps''])
       = paper_titled ''gaps''
   \<and> (1::nat) < length (deduplicate_results exact_match_helpers
        [paper_titled ''gaps'', paper_titled ''gaps'', paper_titled ''maps''])
   \<and> (\<forall>a b. calculate_similarity exact_match_helpers a b
          = calculate_similarity exact_match_helpers b a)
   \<and> calculate_similarity exact_match_helpers
        (normalized_title exact_match_helpers (paper_titled ''maps''))
        (normalized_title exact_match_helpers (paper_titled ''gaps'')) \<le> 8 / 10"
  using deduplicate_results_spec [of exact_match_helpers
      "[paper_titled ''gaps'', paper_titled ''gaps'', paper_titled ''maps'']"
      "paper_titled ''maps''"]
  by (simp add: deduplicate_results_def exact_match_helpers_def paper_titled_def
      normalized_title_def)

section \<open>Properties of the search and of the batch extraction\<close>

lemma merge_results_concat:
  "merge_results acc rs = acc @ concat (map provider_results rs)"
  by (induction acc rs rule: merge_results.induct) (auto simp: provider_results_def)

lemma search_papers_eq:
  "search_papers env query max_results s =
     (Inr (slice_upto max_results (deduplicate_results (text_helpers env)
        (provider_results (provider_search env SemanticScholar query max_results)
         @ provider_results (provider_search env Crossref query max_results)
         @ provider_results (provider_search env Arxiv query max_results)))),
      s\<lparr>trace := trace s @ [ProviderSearch SemanticScholar query,
          ProviderSearch Crossref query, ProviderSearch Arxiv query]\<rparr>)"
  by (simp add: search_papers_def bindM_def gather_def search_provider_def returnM_def
      merge_results_concat)

text \<open>
  C6. \<open>search_papers\<close> calls the three providers with the query, whatever each of them
  answers, and does not raise: it returns the deduplicated concatenation, in the order
  Semantic Scholar, Crossref, arXiv and within a provider in the provider's order, of the
  lists of the providers that returned one, cut by the slice \<open>[:max_results]\<close>, which for
  a non-negative \<open>max_results\<close> keeps the first \<open>max_results\<close> results. When a provider
  raises, the result is the one computed from the two other providers. The three calls
  are gathered; their record lists them in the order of the gathered tasks.
\<close>

theorem search_papers_merges_surviving_providers:
  "search_papers env query max_results s =
     (Inr (slice_upto max_results (deduplicate_results (text_helpers env)
        (provider_results (provider_search env SemanticScholar query max_results)
         @ provider_results (provider_search env Crossref query max_results)
         @ provider_results (provider_search env Arxiv query max_results)))),
      s\<lparr>trace := trace s @ [ProviderSearch SemanticScholar query,
          ProviderSearch Crossref query, ProviderSearch Arxiv query]\<rparr>)
   \<and> (0 \<le> max_results \<longrightarrow>
        fst (search_papers env query max_results s) =
          Inr (take (nat max_results) (deduplicate_results (text_helpers env)
            (provider_results (provider_search env SemanticScholar query max_results)
             @ provider_results (provider_search env Crossref query max_results)
             @ provider_results (provider_search env Arxiv query max_results)))))
   \<and> (\<forall>p e. provider_search env p query max_results = Inl e \<longrightarrow>
        fst (search_papers env query max_results s) =
          Inr (slice_upto max_results (deduplicate_results (text_helpers env)
            (concat (map (\<lambda>q. provider_results (provider_search env q query max_results))
               (filter (\<lambda>q. q \<noteq> p) [SemanticScholar, Crossref, Arxiv]))))))"
proof (intro conjI allI impI)
  show "search_papers env query max_results s =
     (Inr (slice_upto max_results (deduplicate_results (text_helpers env)
        (provider_results (provider_search env SemanticScholar query max_results)
         @ provider_results (provider_search env Crossref query max_results)
         @ provider_results (provider_search env Arxiv query max_results)))),
      s\<lparr>trace := trace s @ [ProviderSearch SemanticScholar query,
          ProviderSearch Crossref query, ProviderSearch Arxiv query]\<rparr>)"
    by (rule search_papers_eq)
next
  assume "0 \<le> max_results"
  then show "fst (search_papers env query max_results s) =
          Inr (take (nat max_results) (deduplicate_results (text_helpers env)
            (provider_results (provider_search env SemanticScholar query max_results)
             @ provider_results (provider_search env Crossref query max_results)
             @ provider_results (provider_search env Arxiv query max_results))))"
    by (simp add: search_papers_eq slice_upto_def)
next
  fix p e
  assume "provider_search env p query max_results = Inl e"
  then show "fst (search_papers env query max_results s) =
          Inr (slice_upto max_results (deduplicate_results (text_helpers env)
            (concat (map (\<lambda>q. provider_results (provider_search env q query max_results))
               (filter (\<lambda>q. q \<noteq> p) [SemanticScholar, Crossref, Arxiv])))))"
    by (cases p) (simp_all add: search_papers_eq provider_results_def)
qed

theorem search_papers_merges_surviving_providers_witness:
  "(0::int) \<le> 10
   \<and> provider_search quiet_collaborators SemanticScholar ''q'' 10
       = Inl (CollaboratorError ''timeout'')
   \<and> fst (search_papers quiet_collaborators ''q'' 10 \<lparr>trace = []\<rparr>) =
       Inr [paper_titled ''gaps'',
            (paper_titled ''maps'')\<lparr>pdf_url := Some ''http://arxiv/maps.pdf''\<rparr>]"
  using search_papers_merges_surviving_providers
    [of quiet_collaborators "''q''" 10 "\<lparr>trace = []\<rparr>"]
  by (simp add: quiet_collaborators_def provider_results_def deduplicate_results_def
      exact_match_helpers_def paper_titled_def normalized_title_def slice_upto_def)

lemma extraction_task_eq:
  "extraction_task env paper s =
     (extraction_outcome env paper, s\<lparr>trace := trace s @ extraction_events paper\<rparr>)"
  by (simp add: extraction_task_def extraction_outcome_def extraction_events_def
      grobid_extract_from_url_def)

lemma gather_extraction_tasks:
  "gather_tasks (map (extraction_task env) papers) s =
     (map (extraction_outcome env) papers,
      s\<lparr>trace := trace s @ concat (map extraction_events papers)\<rparr>)"
  by (induction papers arbitrary: s) (simp_all add: extraction_task_eq)

lemma length_collect_extractions:
  "length (collect_extractions papers i rs) = length (filter (\<lambda>r. r \<noteq> Cancelled) rs)"
  by (induction papers i rs rule: collect_extractions.induct) simp_all

lemma nth_collect_extractions:
  "Cancelled \<notin> set rs \<Longrightarrow> k < length rs \<Longrightarrow> collect_extractions papers i rs ! k =
     (case rs ! k of
        Returned content \<Rightarrow> content
      | Raised e \<Rightarrow>
          failed_extraction (if i + k < length papers then title (papers ! (i + k)) else []) e
      | Cancelled \<Rightarrow> failed_extraction [] (CollaboratorError []))"
proof (induction papers i rs arbitrary: k rule: collect_extractions.induct)
  case (1 papers i)
  then show ?case by simp
next
  case (2 papers i content rest)
  then show ?case by (cases k) (auto split: task_outcome.split)
next
  case (3 papers i e rest)
  then show ?case by (cases k) (auto split: task_outcome.split)
next
  case (4 papers i rest)
  then show ?case by simp
qed

lemma extract_batch_eq:
  "extract_batch env papers s =
     (Inr (collect_extractions papers 0 (map (extraction_outcome env) papers)),
      s\<lparr>trace := trace s @ ExtractBatch # concat (map extraction_events papers)\<rparr>)"
  by (simp add: extract_batch_def bindM_def emit_def gather_extraction_tasks returnM_def)

text \<open>
  When every extraction task returns a record or raises an \<open>Exception\<close>, \<open>extract_batch\<close>
  returns one record for each paper, at the position of the paper.
\<close>

lemma extract_batch_aligned_if_handled:
  assumes "Cancelled \<notin> set (map (extraction_outcome env) papers)"
  shows "\<exists>contents s'. extract_batch env papers s = (Inr contents, s')
     \<and> length contents = length papers
     \<and> map fst (zip papers contents) = papers
     \<and> (\<forall>i < length papers.
          (\<not> truthy (pdf_url (papers ! i)) \<longrightarrow>
             contents ! i = create_extraction_from_metadata (papers ! i)
             \<and> \<not> extraction_success (contents ! i)
             \<and> ec_error (contents ! i) = Some ''No PDF available'')
        \<and> (truthy (pdf_url (papers ! i)) \<longrightarrow>
             (\<forall>e. extract_from_url env (the (pdf_url (papers ! i))) = Raised e \<longrightarrow>
                contents ! i = failed_extraction (title (papers ! i)) e
                \<and> \<not> extraction_success (contents ! i)
                \<and> ec_error (contents ! i) = Some (str_exn e))
           \<and> (\<forall>content. extract_from_url env (the (pdf_url (papers ! i))) = Returned content
                \<longrightarrow> contents ! i = content)))"
proof -
  let ?outcomes = "map (extraction_outcome env) papers"
  let ?contents = "collect_extractions papers 0 ?outcomes"
  have "filter (\<lambda>r. r \<noteq> Cancelled) ?outcomes = ?outcomes"
    using assms by (intro filter_True) (auto simp: image_iff)
  then have len: "length ?contents = length papers"
    by (simp add: length_collect_extractions)
  have nth: "?contents ! i =
      (case extraction_outcome env (papers ! i) of
         Returned content \<Rightarrow> content
       | Raised e \<Rightarrow> failed_extraction (title (papers ! i)) e
       | Cancelled \<Rightarrow> failed_extraction [] (CollaboratorError []))"
    if "i < length papers" for i
    using that assms nth_collect_extractions [of ?outcomes i papers 0]
    by (simp split: task_outcome.split)
  have "\<forall>i < length papers.
          (\<not> truthy (pdf_url (papers ! i)) \<longrightarrow>
             ?contents ! i = create_extraction_from_metadata (papers ! i)
             \<and> \<not> extraction_success (?contents ! i)
             \<and> ec_error (?contents ! i) = Some ''No PDF available'')
        \<and> (truthy (pdf_url (papers ! i)) \<longrightarrow>
             (\<forall>e. extract_from_url env (the (pdf_url (papers ! i))) = Raised e \<longrightarrow>
                ?contents ! i = failed_extraction (title (papers ! i)) e
                \<and> \<not> extraction_success (?contents ! i)
                \<and> ec_error (?contents ! i) = Some (str_exn e))
           \<and> (\<forall>content. extract_from_url env (the (pdf_url (papers ! i))) = Returned content
                \<longrightarrow> ?contents ! i = content))"
    by (simp add: nth extraction_outcome_def create_extraction_from_metadata_def
        failed_extraction_def)
  moreover have "map fst (zip papers ?contents) = papers"
    using len by (simp add: map_fst_zip)
  ultimately show ?thesis
    using len extract_batch_eq [of env papers s] by blast
qed


section \<open>Properties of the response\<close>

lemma map_results_all2:
  "map_results f xs = Inr ys \<Longrightarrow> list_all2 (\<lambda>x y. f x = Inr y) xs ys"
  by (induction xs arbitrary: ys) (auto split: sum.splits)

lemma gap_details_all2:
  "gap_details env gaps s = (Inr details, s') \<Longrightarrow>
     list_all2 (\<lambda>gap d. \<exists>topics research_topics.
        select_topics env gap = Inr topics
        \<and> map_results research_topic_of topics = Inr research_topics
        \<and> gap_detail_of gap research_topics = Inr d) gaps details"
proof (induction gaps arbitrary: s s' details)
  case Nil
  then show ?case by (simp add: returnM_def)
next
  case (Cons gap rest)
  from Cons.prems show ?case
    by (auto simp: bindM_def liftE_def returnM_def session_select_topics_def
        split: sum.splits prod.splits dest: Cons.IH)
qed

lemma float_or_cases:
  "(x = None \<or> x = Some 0 \<longrightarrow> float_or x (5 / 10) = 5 / 10)
   \<and> (\<forall>v. x = Some v \<and> v \<noteq> 0 \<longrightarrow> float_or x (5 / 10) = v)
   \<and> float_or x (5 / 10) \<noteq> 0"
  by (auto simp: float_or_def split: option.splits)

lemma research_topic_score:
  "research_topic_of topic = Inr rt \<Longrightarrow>
     relevance_score rt = float_or (gt_relevance_score topic) (5 / 10)"
  by (auto simp: research_topic_of_def split: option.splits)

lemma gap_detail_score:
  "gap_detail_of gap rts = Inr d \<Longrightarrow>
     confidence_score d = float_or (validation_confidence gap) (5 / 10)
     \<and> gd_suggested_topics d = rts"
  by (auto simp: gap_detail_of_def split: if_splits)

text \<open>
  C10. In a response that \<open>_prepare_response\<close> returns, the details are one for each valid
  gap, in order. The \<open>confidence_score\<close> of a detail is 0.5 when the stored validation
  confidence of its gap is \<open>None\<close> or zero and is the stored value otherwise; the
  \<open>relevance_score\<close> of each of its topics is 0.5 when the stored relevance score of the
  topic is \<open>None\<close> or zero and is the stored value otherwise. Neither score is zero.
\<close>

theorem prepare_response_reports_no_zero_score:
  assumes "prepare_response env a valid_gaps s = (Inr response, s')"
  shows "\<exists>details. resp_gaps response = Some details
     \<and> length details = length valid_gaps
     \<and> (\<forall>i < length valid_gaps.
          (validation_confidence (valid_gaps ! i) = None
             \<or> validation_confidence (valid_gaps ! i) = Some 0
           \<longrightarrow> confidence_score (details ! i) = 5 / 10)
        \<and> (\<forall>v. validation_confidence (valid_gaps ! i) = Some v \<and> v \<noteq> 0
           \<longrightarrow> confidence_score (details ! i) = v)
        \<and> confidence_score (details ! i) \<noteq> 0
        \<and> (\<exists>topics. select_topics env (valid_gaps ! i) = Inr topics
             \<and> length (gd_suggested_topics (details ! i)) = length topics
             \<and> (\<forall>j < length topics.
                  (gt_relevance_score (topics ! j) = None
                     \<or> gt_relevance_score (topics ! j) = Some 0
                   \<longrightarrow> relevance_score (gd_suggested_topics (details ! i) ! j) = 5 / 10)
                \<and> (\<forall>v. gt_relevance_score (topics ! j) = Some v \<and> v \<noteq> 0
                   \<longrightarrow> relevance_score (gd_suggested_topics (details ! i) ! j) = v)
                \<and> relevance_score (gd_suggested_topics (details ! i) ! j) \<noteq> 0)))"
proof -
  from assms obtain details s1 where
    det: "gap_details env valid_gaps s = (Inr details, s1)"
    and resp: "success_response a (length valid_gaps) details = Inr response"
    by (auto simp: prepare_response_def bindM_def liftE_def split: sum.splits prod.splits)
  from resp have gaps: "resp_gaps response = Some details"
    by (auto simp: success_response_def split: option.splits)
  have all2: "list_all2 (\<lambda>gap d. \<exists>topics research_topics.
        select_topics env gap = Inr topics
        \<and> map_results research_topic_of topics = Inr research_topics
        \<and> gap_detail_of gap research_topics = Inr d) valid_gaps details"
    using det by (rule gap_details_all2)
  then have len: "length details = length valid_gaps"
    by (simp add: list_all2_lengthD)
  have each: "(validation_confidence (valid_gaps ! i) = None
             \<or> validation_confidence (valid_gaps ! i) = Some 0
           \<longrightarrow> confidence_score (details ! i) = 5 / 10)
        \<and> (\<forall>v. validation_confidence (valid_gaps ! i) = Some v \<and> v \<noteq> 0
           \<longrightarrow> confidence_score (details ! i) = v)
        \<and> confidence_score (details ! i) \<noteq> 0
        \<and> (\<exists>topics. select_topics env (valid_gaps ! i) = Inr topics
             \<and> length (gd_suggested_topics (details ! i)) = length topics
             \<and> (\<forall>j < length topics.
                  (gt_relevance_score (topics ! j) = None
                     \<or> gt_relevance_score (topics ! j) = Some 0
                   \<longrightarrow> relevance_score (gd_suggested_topics (details ! i) ! j) = 5 / 10)
                \<and> (\<forall>v. gt_relevance_score (topics ! j) = Some v \<and> v \<noteq> 0
                   \<longrightarrow> relevance_score (gd_suggested_topics (details ! i) ! j) = v)
                \<and> relevance_score (gd_suggested_topics (details ! i) ! j) \<noteq> 0))"
    if i: "i < length valid_gaps" for i
  proof -
    from all2 i obtain topics rts where
      sel: "select_topics env (valid_gaps ! i) = Inr topics"
      and mr: "map_results research_topic_of topics = Inr rts"
      and gd: "gap_detail_of (valid_gaps ! i) rts = Inr (details ! i)"
      by (auto simp: list_all2_conv_all_nth)
    from gap_detail_score [OF gd]
    have conf: "confidence_score (details ! i) = float_or (validation_confidence (valid_gaps ! i)) (5 / 10)"
      and sug: "gd_suggested_topics (details ! i) = rts" by simp_all
    from map_results_all2 [OF mr]
    have t2: "list_all2 (\<lambda>x y. research_topic_of x = Inr y) topics rts" .
    then have tlen: "length rts = length topics" by (simp add: list_all2_lengthD)
    have tscore: "relevance_score (rts ! j) = float_or (gt_relevance_score (topics ! j)) (5 / 10)"
      if "j < length topics" for j
      using t2 that research_topic_score [of "topics ! j" "rts ! j"]
      by (auto simp: list_all2_conv_all_nth)
    show ?thesis
      using conf sug sel tlen tscore float_or_cases by auto
  qed
  from gaps len each show ?thesis by blast
qed


theorem prepare_response_reports_no_zero_score_witness:
  "\<exists>response s'.
     prepare_response quiet_run_collaborators sample_analysis [zero_confidence_gap]
       \<lparr>trace = [], analysis = Some sample_analysis\<rparr> = (Inr response, s')
     \<and> validation_confidence zero_confidence_gap = Some 0
     \<and> map confidence_score (the (resp_gaps response)) = [5 / 10]
     \<and> map gt_relevance_score
         (case select_topics quiet_run_collaborators zero_confidence_gap of
            Inl e \<Rightarrow> [] | Inr ts \<Rightarrow> ts) = [Some 0]
     \<and> map (map relevance_score \<circ> gd_suggested_topics) (the (resp_gaps response)) = [[5 / 10]]"
proof -
  have "\<exists>response s'.
     prepare_response quiet_run_collaborators sample_analysis [zero_confidence_gap]
       \<lparr>trace = [], analysis = Some sample_analysis\<rparr> = (Inr response, s')"
    by (simp add: prepare_response_def bindM_def liftE_def returnM_def
        session_select_topics_def quiet_run_collaborators_def research_topic_of_def
        gap_detail_of_def list_or_empty_def zero_confidence_gap_def new_gap_record_def
        success_response_def sample_analysis_def)
  then obtain response s' where run:
    "prepare_response quiet_run_collaborators sample_analysis [zero_confidence_gap]
       \<lparr>trace = [], analysis = Some sample_analysis\<rparr> = (Inr response, s')"
    by blast
  from prepare_response_reports_no_zero_score [OF run]
  obtain details where d: "resp_gaps response = Some details" "length details = 1"
    and c: "confidence_score (details ! 0) = 5 / 10"
    and t: "\<exists>topics. select_topics quiet_run_collaborators zero_confidence_gap = Inr topics
             \<and> length (gd_suggested_topics (details ! 0)) = length topics
             \<and> (\<forall>j < length topics.
                  (gt_relevance_score (topics ! j) = None
                     \<or> gt_relevance_score (topics ! j) = Some 0
                   \<longrightarrow> relevance_score (gd_suggested_topics (details ! 0) ! j) = 5 / 10))"
    by (auto simp: zero_confidence_gap_def)
  from d obtain d0 where details: "details = [d0]"
    by (cases details) auto
  from t obtain r0 where topics: "gd_suggested_topics d0 = [r0]" "relevance_score r0 = 5 / 10"
    unfolding details
    by (cases "gd_suggested_topics d0") (auto simp: quiet_run_collaborators_def)
  show ?thesis
    using run d c details topics
    by (auto simp: zero_confidence_gap_def quiet_run_collaborators_def)
qed

section \<open>Properties of the validation of a gap\<close>


lemma count_events_append:
  "count_events ev (xs @ ys) = count_events ev xs + count_events ev ys"
  by (simp add: count_events_def)

lemma count_events_Nil: "count_events ev [] = 0"
  by (simp add: count_events_def)

lemma count_events_Cons:
  "count_events ev (x # xs) = (if x = ev then Suc (count_events ev xs) else count_events ev xs)"
  by (simp add: count_events_def)


lemma generate_search_query_eq:
  "generate_search_query env gap s =
     (Inr (generated_query env gap (count_events (GenerateContent QueryPrompt) (trace s))),
      s\<lparr>trace := trace s @ [GenerateContent QueryPrompt]\<rparr>)"
  by (simp add: generate_search_query_def generated_query_def catchM_def bindM_def
      model_generate_content_def returnM_def split: sum.split)

lemma gemini_validate_gap_body_eq:
  "gemini_validate_gap_body env gap contents s =
     (Inr (verdict_of env (count_events (GenerateContent VerdictPrompt) (trace s))),
      s\<lparr>trace := trace s @ [RateLimiterWait, GenerateContent VerdictPrompt]\<rparr>)"
  by (simp add: gemini_validate_gap_body_def verdict_of_def catchM_def bindM_def
      rate_limiter_wait_def emit_def model_generate_content_def returnM_def liftE_def
      count_events_append count_events_Nil count_events_Cons split: sum.split)

lemma retry_more_returns:
  "operation s = (Inr x, s') \<Longrightarrow> retry_more k operation s = (Inr x, s')"
  by (cases k) simp_all

lemma gemini_validate_gap_eq:
  "gemini_validate_gap env gap contents s =
     (Inr (verdict_of env (count_events (GenerateContent VerdictPrompt) (trace s))),
      s\<lparr>trace := trace s @ [GeminiValidateGap, RateLimiterWait, GenerateContent VerdictPrompt]\<rparr>)"
  by (simp add: gemini_validate_gap_def bindM_def emit_def retry_async_def
      retry_more_returns [OF gemini_validate_gap_body_eq] count_events_append count_events_Nil count_events_Cons)

text \<open>
  C8. \<open>generate_search_query\<close> should call the AI model under the rate limiter and
  with retries. It calls the AI model once and returns: the stripped text of the response, or,
  when the call raises, the gap's name, a space and the gap's category; it does not
  raise. The only call it records is the one \<open>generate_content\<close>: it does not wait for the
  rate limiter and does not repeat a call that raised, as the run against an AI model
  whose every call raises shows. The sibling \<open>validate_gap\<close> of the same service waits for the
  rate limiter before its call.
\<close>

theorem generate_search_query_single_call:
  "generate_search_query env gap s =
     (Inr (generated_query env gap (count_events (GenerateContent QueryPrompt) (trace s))),
      s\<lparr>trace := trace s @ [GenerateContent QueryPrompt]\<rparr>)
   \<and> generate_search_query unreachable_model sample_gap \<lparr>trace = []\<rparr> =
       (Inr ''Scalability empirical'', \<lparr>trace = [GenerateContent QueryPrompt]\<rparr>)
   \<and> snd (gemini_validate_gap unreachable_model sample_gap [] \<lparr>trace = []\<rparr>) =
       \<lparr>trace = [GeminiValidateGap, RateLimiterWait, GenerateContent VerdictPrompt]\<rparr>"
  by (simp add: generate_search_query_eq gemini_validate_gap_eq generated_query_def
      unreachable_model_def sample_gap_def count_events_Nil)

lemma gemini_expand_gap_details_body_eq:
  "gemini_expand_gap_details_body env gap validation s =
     (Inr unavailable_details, s\<lparr>trace := trace s @ [RateLimiterWait]\<rparr>)"
  by (simp add: gemini_expand_gap_details_body_def catchM_def bindM_def rate_limiter_wait_def
      emit_def liftE_def dict_attribute_def returnM_def)

lemma gemini_expand_gap_details_eq:
  "gemini_expand_gap_details env gap validation s =
     (Inr unavailable_details,
      s\<lparr>trace := trace s @ [GeminiExpandGapDetails, RateLimiterWait]\<rparr>)"
  by (simp add: gemini_expand_gap_details_def bindM_def emit_def retry_async_def
      retry_more_returns [OF gemini_expand_gap_details_body_eq])

lemma expand_gap_details_returns:
  "\<exists>s'. expand_gap_details env gap s = (Inr (), s')
     \<and> validation_status (gap_record s') = validation_status (gap_record s)
     \<and> rg_description (gap_record s') = rg_description (gap_record s)
     \<and> modification_history (gap_record s') = modification_history (gap_record s)"
  by (simp add: expand_gap_details_def catchM_def bindM_def get_gap_def
      gemini_expand_gap_details_eq store_expansion_def session_commit_def returnM_def Let_def
      split: option.split)

lemma count_extraction_events:
  "(\<forall>u. ev \<noteq> ExtractFromUrl u) \<Longrightarrow> count_events ev (concat (map extraction_events papers)) = 0"
  by (induction papers) (auto simp: count_events_append count_events_Nil count_events_Cons extraction_events_def)

lemma validate_gap_try_eq:
  "validate_gap_try env gap s =
     (let k = count_events SessionCommit (trace s);
          q = generated_query env gap (count_events (GenerateContent QueryPrompt) (trace s));
          papers = surviving_results env q;
          r1 = (gap_record s)\<lparr>validation_status := VALIDATING\<rparr>;
          tr1 = trace s @ [SessionCommit]
      in case commit_outcome env k of
           Some e \<Rightarrow> (Inl e, s\<lparr>trace := tr1, gap_record := r1\<rparr>)
         | None \<Rightarrow>
            (let r2 = r1\<lparr>validation_query := Some q\<rparr>;
                 tr2 = tr1 @ [GenerateContent QueryPrompt, ProviderSearch SemanticScholar q,
                              ProviderSearch Crossref q, ProviderSearch Arxiv q]
             in if papers = [] then
                  (let s3 = s\<lparr>trace := tr2 @ [SessionCommit],
                                gap_record := r2\<lparr>validation_status := VALID,
                                  validation_confidence := Some (5 / 10),
                                  validated_at := Some (now env (length tr2))\<rparr>\<rparr>
                   in case commit_outcome env (Suc k) of
                        Some e \<Rightarrow> (Inl e, s3)
                      | None \<Rightarrow> (Inr True, s3))
                else
                  (let contents = collect_extractions papers 0 (map (extraction_outcome env) papers);
                       tr3 = tr2 @ ExtractBatch # concat (map extraction_events papers)
                               @ [GeminiValidateGap, RateLimiterWait, GenerateContent VerdictPrompt];
                       vr = verdict_of env (count_events (GenerateContent VerdictPrompt) (trace s));
                       s3 = s\<lparr>trace := tr3 @ [SessionCommit],
                              gap_record := apply_verdict gap vr (now env (length tr3))
                                (r2\<lparr>papers_analyzed_count := Some (length papers),
                                    validation_confidence := Some (confidence vr),
                                    validation_reasoning := Some (vr_reasoning vr),
                                    validated_at := Some (now env (length tr3))\<rparr>),
                              validation_papers := validation_papers s
                                @ map (validation_paper_of r2) (zip papers contents)\<rparr>
                   in case commit_outcome env (Suc k) of
                        Some e \<Rightarrow> (Inl e, s3)
                      | None \<Rightarrow> (Inr (is_valid vr), s3))))"
  by (simp add: validate_gap_try_def bindM_def modify_gap_def session_commit_def
      generate_search_query_eq search_papers_eq extract_batch_eq
      gemini_validate_gap_eq utc_now_def store_validation_papers_def returnM_def Let_def
      count_events_append count_events_Nil count_events_Cons count_extraction_events surviving_results_def
      split: option.split)

lemma validate_gap_except_eq:
  "validate_gap_except env e s =
     (let s' = s\<lparr>trace := trace s @ [SessionCommit],
                  gap_record := (gap_record s)\<lparr>validation_status := VALID,
                    validation_confidence := Some (3 / 10),
                    validation_reasoning := Some (''Validation error: '' @ str_exn e)\<rparr>\<rparr>
      in case commit_outcome env (count_events SessionCommit (trace s)) of
           Some e' \<Rightarrow> (Inl e', s')
         | None \<Rightarrow> (Inr True, s'))"
  by (simp add: validate_gap_except_def bindM_def modify_gap_def session_commit_def
      returnM_def Let_def split: option.split)

text \<open>
  C7 (amended). When no result survives the search and the two commits of the path
  succeed, \<open>_validate_gap\<close> reports the gap as valid, with status \<open>VALID\<close>, confidence 0.5
  and the clock reading as \<open>validated_at\<close>. It writes no reasoning: the reasoning of the
  record stays as it was. The calls made are the first commit, the query prompt, the
  three provider searches and the second commit: neither the extraction nor the verdict
  is called.
\<close>

theorem validate_gap_no_results:
  assumes "surviving_results env
             (generated_query env gap (count_events (GenerateContent QueryPrompt) (trace s))) = []"
    and "commit_outcome env (count_events SessionCommit (trace s)) = None"
    and "commit_outcome env (Suc (count_events SessionCommit (trace s))) = None"
  shows "\<exists>s'. validate_gap env gap s = (Inr True, s')
     \<and> validation_status (gap_record s') = VALID
     \<and> validation_confidence (gap_record s') = Some (5 / 10)
     \<and> validated_at (gap_record s') = Some (now env (length (trace s) + 5))
     \<and> validation_reasoning (gap_record s') = validation_reasoning (gap_record s)
     \<and> trace s' = trace s @
          [SessionCommit, GenerateContent QueryPrompt,
           ProviderSearch SemanticScholar
             (generated_query env gap (count_events (GenerateContent QueryPrompt) (trace s))),
           ProviderSearch Crossref
             (generated_query env gap (count_events (GenerateContent QueryPrompt) (trace s))),
           ProviderSearch Arxiv
             (generated_query env gap (count_events (GenerateContent QueryPrompt) (trace s))),
           SessionCommit]"
  using assms
  by (simp add: validate_gap_def catchM_def validate_gap_try_eq Let_def eval_nat_numeral)

text \<open>
  C7, as stated, fails: for a fresh gap whose search returns nothing, the reasoning after
  validation is not \<open>no related work found\<close> (it is still \<open>None\<close>).
\<close>

theorem validate_gap_no_results_counterexample:
  "surviving_results quiet_run_collaborators
      (generated_query quiet_run_collaborators sample_gap 0) = []
   \<and> fst (validate_gap quiet_run_collaborators sample_gap (fresh_task quiet_run_collaborators))
       = Inr True
   \<and> validation_confidence (gap_record (snd
        (validate_gap quiet_run_collaborators sample_gap (fresh_task quiet_run_collaborators))))
       = Some (5 / 10)
   \<and> validation_reasoning (gap_record (snd
        (validate_gap quiet_run_collaborators sample_gap (fresh_task quiet_run_collaborators))))
       \<noteq> Some ''no related work found''"
  by (simp add: validate_gap_def catchM_def validate_gap_try_eq Let_def fresh_task_def
      quiet_run_collaborators_def surviving_results_def provider_results_def
      deduplicate_results_def slice_upto_def count_events_Nil new_gap_record_def)

theorem validate_gap_no_results_witness:
  "surviving_results quiet_run_collaborators
      (generated_query quiet_run_collaborators sample_gap 0) = []
   \<and> commit_outcome quiet_run_collaborators 0 = None
   \<and> commit_outcome quiet_run_collaborators (Suc 0) = None
   \<and> (\<exists>s'. validate_gap quiet_run_collaborators sample_gap (fresh_task quiet_run_collaborators)
          = (Inr True, s')
        \<and> validation_status (gap_record s') = VALID
        \<and> validation_confidence (gap_record s') = Some (5 / 10)
        \<and> validation_reasoning (gap_record s') = None)"
proof -
  have a: "surviving_results quiet_run_collaborators
      (generated_query quiet_run_collaborators sample_gap
         (count_events (GenerateContent QueryPrompt) (trace (fresh_task quiet_run_collaborators)))) = []"
    by (simp add: fresh_task_def quiet_run_collaborators_def surviving_results_def
        provider_results_def deduplicate_results_def slice_upto_def count_events_Nil)
  have b: "commit_outcome quiet_run_collaborators
      (count_events SessionCommit (trace (fresh_task quiet_run_collaborators))) = None"
    by (simp add: quiet_run_collaborators_def)
  have c: "commit_outcome quiet_run_collaborators
      (Suc (count_events SessionCommit (trace (fresh_task quiet_run_collaborators)))) = None"
    by (simp add: quiet_run_collaborators_def)
  from validate_gap_no_results [OF a b c] a b c show ?thesis
    by (auto simp: fresh_task_def count_events_Nil new_gap_record_def)
qed

lemma create_gap_record_eq:
  "create_gap_record env s =
     (let s1 = s\<lparr>trace := trace s @ [SessionCommit]\<rparr>
      in case commit_outcome env (count_events SessionCommit (trace s)) of
           Some e \<Rightarrow> (Inl e, s1)
         | None \<Rightarrow>
            (case refresh_outcome env (count_events SessionRefresh (trace s)) of
               Inl e \<Rightarrow> (Inl e, s1\<lparr>trace := trace s @ [SessionCommit, SessionRefresh]\<rparr>)
             | Inr row_id \<Rightarrow>
                 (Inr (), s\<lparr>trace := trace s @ [SessionCommit, SessionRefresh],
                            gap_record := (gap_record s)\<lparr>rg_id := Some row_id\<rparr>\<rparr>)))"
  by (simp add: create_gap_record_def bindM_def session_commit_def session_refresh_def
      modify_gap_def Let_def count_events_append count_events_Nil count_events_Cons
      split: option.split sum.split)

lemma validate_gap_with_verdict:
  assumes "commit_outcome env (count_events SessionCommit (trace s)) = None"
    and "commit_outcome env (Suc (count_events SessionCommit (trace s))) = None"
    and "surviving_results env
           (generated_query env gap (count_events (GenerateContent QueryPrompt) (trace s))) \<noteq> []"
  shows "\<exists>s' t. validate_gap env gap s =
            (Inr (is_valid (verdict_of env (count_events (GenerateContent VerdictPrompt) (trace s)))), s')
     \<and> gap_record s' =
         apply_verdict gap (verdict_of env (count_events (GenerateContent VerdictPrompt) (trace s))) t
           ((gap_record s)\<lparr>validation_status := VALIDATING,
              validation_query := Some (generated_query env gap
                 (count_events (GenerateContent QueryPrompt) (trace s))),
              papers_analyzed_count := Some (length (surviving_results env
                 (generated_query env gap (count_events (GenerateContent QueryPrompt) (trace s))))),
              validation_confidence := Some (confidence
                 (verdict_of env (count_events (GenerateContent VerdictPrompt) (trace s)))),
              validation_reasoning := Some (vr_reasoning
                 (verdict_of env (count_events (GenerateContent VerdictPrompt) (trace s)))),
              validated_at := Some t\<rparr>)"
  using assms
  by (auto simp add: validate_gap_def catchM_def validate_gap_try_eq Let_def)

lemma process_single_gap_after_creation:
  assumes "commit_outcome env 0 = None" and "refresh_outcome env 0 = Inr row_id"
  shows "process_single_gap env analysis_id gap index =
     (case validate_gap env gap (created_task env analysis_id gap index row_id) of
        (Inl e, s2) \<Rightarrow> (Inr None, s2)
      | (Inr valid, s2) \<Rightarrow>
          (if valid
           then (case expand_gap_details env gap s2 of
                   (r, s3) \<Rightarrow> (Inr (Some (gap_record s3)), s3))
           else (Inr None, s2)))"
proof -
  have created: "create_gap_record env
      \<lparr>trace = [], gap_record = new_gap_record env analysis_id gap index,
       validation_papers = [], topics = []\<rparr>
     = (Inr (), created_task env analysis_id gap index row_id)"
    using assms by (simp add: create_gap_record_eq count_events_Nil created_task_def)
  obtain r2 s2 where v: "validate_gap env gap (created_task env analysis_id gap index row_id) = (r2, s2)"
    by (cases "validate_gap env gap (created_task env analysis_id gap index row_id)")
  obtain s3 where e: "expand_gap_details env gap s2 = (Inr (), s3)"
    using expand_gap_details_returns [of env gap s2] by blast
  show ?thesis
    using created v e
    by (cases r2)
       (simp_all add: process_single_gap_def process_single_gap_try_def catchM_def bindM_def
          get_gap_def returnM_def)
qed

text \<open>
  C5 (amended). For a gap whose record is created, whose search leaves at least one
  result, whose verdict \<open>verdict_of env 0\<close> is obtained and whose two session commits in
  \<open>_validate_gap\<close> succeed, the verdict decides the outcome of \<open>_process_single_gap\<close>.
  With \<open>is_valid\<close> false the status is \<open>INVALID\<close> and the result is \<open>None\<close>, which the run
  leaves out of the valid gaps. With \<open>is_valid\<close> and \<open>should_modify\<close> the status is
  \<open>MODIFIED\<close>, the description is the modification suggestion when that is a non-empty
  string and the original description otherwise, and the history of the record, empty
  before, holds one entry with the original description and the suggestion. With
  \<open>is_valid\<close> and not \<open>should_modify\<close> the status is \<open>VALID\<close> and the description is the
  original one. In both valid cases the record is the result and is among the valid gaps.
\<close>

theorem process_single_gap_verdict_branches:
  assumes "commit_outcome env 0 = None"
    and "refresh_outcome env 0 = Inr row_id"
    and "commit_outcome env 1 = None"
    and "commit_outcome env 2 = None"
    and "surviving_results env (generated_query env gap 0) \<noteq> []"
  shows "(\<not> is_valid (verdict_of env 0) \<longrightarrow>
            fst (process_single_gap env analysis_id gap index) = Inr None
          \<and> validation_status (gap_record (snd (process_single_gap env analysis_id gap index)))
              = INVALID
          \<and> valid_results (batch_process [fst (process_single_gap env analysis_id gap index)])
              = [])
       \<and> (is_valid (verdict_of env 0) \<and> should_modify (verdict_of env 0) \<longrightarrow>
            (\<exists>r t. fst (process_single_gap env analysis_id gap index) = Inr (Some r)
               \<and> valid_results (batch_process [fst (process_single_gap env analysis_id gap index)])
                   = [r]
               \<and> validation_status r = MODIFIED
               \<and> rg_description r =
                   (if truthy (modification_suggestion (verdict_of env 0))
                    then the (modification_suggestion (verdict_of env 0))
                    else description gap)
               \<and> modification_history r =
                   Some [\<lparr>me_timestamp = t, me_original = description gap,
                          me_modification = modification_suggestion (verdict_of env 0)\<rparr>]))
       \<and> (is_valid (verdict_of env 0) \<and> \<not> should_modify (verdict_of env 0) \<longrightarrow>
            (\<exists>r. fst (process_single_gap env analysis_id gap index) = Inr (Some r)
               \<and> valid_results (batch_process [fst (process_single_gap env analysis_id gap index)])
                   = [r]
               \<and> validation_status r = VALID
               \<and> rg_description r = description gap
               \<and> modification_history r = None))"
proof -
  let ?vr = "verdict_of env 0"
  let ?s0 = "\<lparr>trace = [], gap_record = new_gap_record env analysis_id gap index,
              validation_papers = [], topics = []\<rparr>"
  let ?s1 = "\<lparr>trace = [SessionCommit, SessionRefresh],
              gap_record = (new_gap_record env analysis_id gap index)\<lparr>rg_id := Some row_id\<rparr>,
              validation_papers = [], topics = []\<rparr>"
  have created: "create_gap_record env ?s0 = (Inr (), ?s1)"
    using assms(1,2) by (simp add: create_gap_record_eq count_events_Nil)
  have "\<exists>s' t. validate_gap env gap ?s1 =
            (Inr (is_valid (verdict_of env (count_events (GenerateContent VerdictPrompt) (trace ?s1)))), s')
     \<and> gap_record s' =
         apply_verdict gap (verdict_of env (count_events (GenerateContent VerdictPrompt) (trace ?s1))) t
           ((gap_record ?s1)\<lparr>validation_status := VALIDATING,
              validation_query := Some (generated_query env gap
                 (count_events (GenerateContent QueryPrompt) (trace ?s1))),
              papers_analyzed_count := Some (length (surviving_results env
                 (generated_query env gap (count_events (GenerateContent QueryPrompt) (trace ?s1))))),
              validation_confidence := Some (confidence
                 (verdict_of env (count_events (GenerateContent VerdictPrompt) (trace ?s1)))),
              validation_reasoning := Some (vr_reasoning
                 (verdict_of env (count_events (GenerateContent VerdictPrompt) (trace ?s1)))),
              validated_at := Some t\<rparr>)"
    using assms(3,4,5)
    by (intro validate_gap_with_verdict)
       (simp_all add: count_events_Nil count_events_Cons eval_nat_numeral)
  then obtain s2 t where
    validated: "validate_gap env gap ?s1 = (Inr (is_valid ?vr), s2)"
    and rec2: "gap_record s2 =
         apply_verdict gap ?vr t
           ((new_gap_record env analysis_id gap index)\<lparr>rg_id := Some row_id,
              validation_status := VALIDATING,
              validation_query := Some (generated_query env gap 0),
              papers_analyzed_count := Some (length (surviving_results env (generated_query env gap 0))),
              validation_confidence := Some (confidence ?vr),
              validation_reasoning := Some (vr_reasoning ?vr),
              validated_at := Some t\<rparr>)"
    by (auto simp: count_events_Nil count_events_Cons)
  obtain s3 where
    expanded: "expand_gap_details env gap s2 = (Inr (), s3)"
    and keep: "validation_status (gap_record s3) = validation_status (gap_record s2)"
      "rg_description (gap_record s3) = rg_description (gap_record s2)"
      "modification_history (gap_record s3) = modification_history (gap_record s2)"
    using expand_gap_details_returns [of env gap s2] by blast
  have run: "process_single_gap env analysis_id gap index =
      (if is_valid ?vr then (Inr (Some (gap_record s3)), s3) else (Inr None, s2))"
    using created validated expanded
    by (simp add: process_single_gap_def process_single_gap_try_def catchM_def bindM_def
        get_gap_def returnM_def)
  show ?thesis
  proof (intro conjI impI)
    assume "\<not> is_valid ?vr"
    then show "fst (process_single_gap env analysis_id gap index) = Inr None"
      and "validation_status (gap_record (snd (process_single_gap env analysis_id gap index)))
              = INVALID"
      and "valid_results (batch_process [fst (process_single_gap env analysis_id gap index)]) = []"
      using run rec2 by (simp_all add: apply_verdict_def valid_results_def batch_process_def)
  next
    assume v: "is_valid ?vr \<and> should_modify ?vr"
    have "fst (process_single_gap env analysis_id gap index) = Inr (Some (gap_record s3))"
      and "valid_results (batch_process [fst (process_single_gap env analysis_id gap index)])
             = [gap_record s3]"
      and "validation_status (gap_record s3) = MODIFIED"
      and "rg_description (gap_record s3) =
             (if truthy (modification_suggestion ?vr) then the (modification_suggestion ?vr)
              else description gap)"
      and "modification_history (gap_record s3) =
             Some [\<lparr>me_timestamp = t, me_original = description gap,
                    me_modification = modification_suggestion ?vr\<rparr>]"
      using v run rec2 keep
      by (simp_all add: apply_verdict_def valid_results_def batch_process_def Let_def
          new_gap_record_def)
    then show "\<exists>r t. fst (process_single_gap env analysis_id gap index) = Inr (Some r)
               \<and> valid_results (batch_process [fst (process_single_gap env analysis_id gap index)])
                   = [r]
               \<and> validation_status r = MODIFIED
               \<and> rg_description r =
                   (if truthy (modification_suggestion ?vr)
                    then the (modification_suggestion ?vr) else description gap)
               \<and> modification_history r =
                   Some [\<lparr>me_timestamp = t, me_original = description gap,
                          me_modification = modification_suggestion ?vr\<rparr>]"
      by blast
  next
    assume v: "is_valid ?vr \<and> \<not> should_modify ?vr"
    have "fst (process_single_gap env analysis_id gap index) = Inr (Some (gap_record s3))"
      and "valid_results (batch_process [fst (process_single_gap env analysis_id gap index)])
             = [gap_record s3]"
      and "validation_status (gap_record s3) = VALID"
      and "rg_description (gap_record s3) = description gap"
      and "modification_history (gap_record s3) = None"
      using v run rec2 keep
      by (simp_all add: apply_verdict_def valid_results_def batch_process_def Let_def
          new_gap_record_def)
    then show "\<exists>r. fst (process_single_gap env analysis_id gap index) = Inr (Some r)
               \<and> valid_results (batch_process [fst (process_single_gap env analysis_id gap index)])
                   = [r]
               \<and> validation_status r = VALID
               \<and> rg_description r = description gap
               \<and> modification_history r = None"
      by blast
  qed
qed

lemma verdict_collaborators_facts:
  "commit_outcome (verdict_collaborators vr) k = None"
  "refresh_outcome (verdict_collaborators vr) 0 = Inr ''row-1''"
  "surviving_results (verdict_collaborators vr) q \<noteq> []"
  "verdict_of (verdict_collaborators vr) 0 = vr"
  by (simp_all add: verdict_collaborators_def quiet_collaborators_def surviving_results_def
      provider_results_def deduplicate_results_def slice_upto_def exact_match_helpers_def
      paper_titled_def normalized_title_def verdict_of_def)

theorem process_single_gap_verdict_branches_witness:
  "commit_outcome (verdict_collaborators (sample_verdict True True)) 0 = None
   \<and> refresh_outcome (verdict_collaborators (sample_verdict True True)) 0 = Inr ''row-1''
   \<and> commit_outcome (verdict_collaborators (sample_verdict True True)) 1 = None
   \<and> commit_outcome (verdict_collaborators (sample_verdict True True)) 2 = None
   \<and> surviving_results (verdict_collaborators (sample_verdict True True))
        (generated_query (verdict_collaborators (sample_verdict True True)) sample_gap 0) \<noteq> []
   \<and> is_valid (verdict_of (verdict_collaborators (sample_verdict True True)) 0)
   \<and> should_modify (verdict_of (verdict_collaborators (sample_verdict True True)) 0)
   \<and> (\<exists>r. fst (process_single_gap (verdict_collaborators (sample_verdict True True))
                ''run-1'' sample_gap 0) = Inr (Some r)
          \<and> validation_status r = MODIFIED
          \<and> rg_description r = ''No evaluation beyond a single machine'')
   \<and> \<not> is_valid (verdict_of (verdict_collaborators (sample_verdict False False)) 0)
   \<and> fst (process_single_gap (verdict_collaborators (sample_verdict False False))
        ''run-1'' sample_gap 0) = Inr None
   \<and> is_valid (verdict_of (verdict_collaborators (sample_verdict True False)) 0)
   \<and> \<not> should_modify (verdict_of (verdict_collaborators (sample_verdict True False)) 0)
   \<and> (\<exists>r. fst (process_single_gap (verdict_collaborators (sample_verdict True False))
                ''run-1'' sample_gap 0) = Inr (Some r)
          \<and> validation_status r = VALID
          \<and> rg_description r = ''No evaluation at scale'')"
  using
    process_single_gap_verdict_branches
      [of "verdict_collaborators (sample_verdict True True)" "''row-1''" sample_gap "''run-1''" 0,
       OF verdict_collaborators_facts(1) verdict_collaborators_facts(2)
          verdict_collaborators_facts(1) verdict_collaborators_facts(1)
          verdict_collaborators_facts(3)]
    process_single_gap_verdict_branches
      [of "verdict_collaborators (sample_verdict False False)" "''row-1''" sample_gap "''run-1''" 0,
       OF verdict_collaborators_facts(1) verdict_collaborators_facts(2)
          verdict_collaborators_facts(1) verdict_collaborators_facts(1)
          verdict_collaborators_facts(3)]
    process_single_gap_verdict_branches
      [of "verdict_collaborators (sample_verdict True False)" "''row-1''" sample_gap "''run-1''" 0,
       OF verdict_collaborators_facts(1) verdict_collaborators_facts(2)
          verdict_collaborators_facts(1) verdict_collaborators_facts(1)
          verdict_collaborators_facts(3)]
  by (auto simp: verdict_collaborators_facts sample_verdict_def sample_gap_def)

lemma late_commit_failure_facts:
  "commit_outcome (late_commit_failure vr) 0 = None"
  "commit_outcome (late_commit_failure vr) (Suc 0) = None"
  "commit_outcome (late_commit_failure vr) (Suc (Suc 0)) = Some (CollaboratorError ''connection lost'')"
  "commit_outcome (late_commit_failure vr) (Suc (Suc (Suc 0))) = None"
  "refresh_outcome (late_commit_failure vr) 0 = Inr ''row-1''"
  "surviving_results (late_commit_failure vr) q \<noteq> []"
  "verdict_of (late_commit_failure vr) 0 = vr"
  by (simp_all add: late_commit_failure_def verdict_collaborators_def quiet_collaborators_def
      surviving_results_def provider_results_def deduplicate_results_def slice_upto_def
      exact_match_helpers_def paper_titled_def normalized_title_def verdict_of_def)

text \<open>
  C5, as stated, fails. The verdict of a gap is obtained with \<open>is_valid\<close> false, and the
  commit that follows the \<open>INVALID\<close> branch raises; the handler of \<open>_validate_gap\<close> then
  sets the status \<open>VALID\<close> and reports the gap as valid, so that the gap is among the valid
  gaps of the run.
\<close>

theorem process_single_gap_verdict_branches_counterexample:
  "\<not> is_valid (verdict_of (late_commit_failure (sample_verdict False False)) 0)
   \<and> fst (process_single_gap (late_commit_failure (sample_verdict False False))
        ''run-1'' sample_gap 0) \<noteq> Inr None
   \<and> validation_status (gap_record (snd
        (process_single_gap (late_commit_failure (sample_verdict False False))
           ''run-1'' sample_gap 0))) = VALID
   \<and> length (valid_results (batch_process
        [fst (process_single_gap (late_commit_failure (sample_verdict False False))
           ''run-1'' sample_gap 0)])) = 1"
proof -
  let ?env = "late_commit_failure (sample_verdict False False)"
  let ?s1 = "created_task ?env ''run-1'' sample_gap 0 ''row-1''"
  have t: "\<exists>s2. validate_gap_try ?env sample_gap ?s1
              = (Inl (CollaboratorError ''connection lost''), s2)
            \<and> count_events SessionCommit (trace s2) = Suc (Suc (Suc 0))"
    by (simp add: validate_gap_try_eq Let_def created_task_def late_commit_failure_facts
        count_events_append count_events_Cons count_events_Nil count_extraction_events)
  then obtain s2 where t2: "validate_gap_try ?env sample_gap ?s1
              = (Inl (CollaboratorError ''connection lost''), s2)"
    and c2: "count_events SessionCommit (trace s2) = Suc (Suc (Suc 0))" by blast
  have v: "\<exists>s3. validate_gap ?env sample_gap ?s1 = (Inr True, s3)
             \<and> validation_status (gap_record s3) = VALID"
    using t2 c2
    by (simp add: validate_gap_def catchM_def validate_gap_except_eq Let_def
        late_commit_failure_facts)
  then obtain s3 where v3: "validate_gap ?env sample_gap ?s1 = (Inr True, s3)"
    and st3: "validation_status (gap_record s3) = VALID" by blast
  obtain s4 where e4: "expand_gap_details ?env sample_gap s3 = (Inr (), s4)"
    and st4: "validation_status (gap_record s4) = validation_status (gap_record s3)"
    using expand_gap_details_returns [of ?env sample_gap s3] by blast
  have run: "process_single_gap ?env ''run-1'' sample_gap 0 = (Inr (Some (gap_record s4)), s4)"
    using process_single_gap_after_creation
      [of ?env "''row-1''" "''run-1''" sample_gap 0, OF late_commit_failure_facts(1)
         late_commit_failure_facts(5)] v3 e4
    by simp
  show ?thesis
    using run st3 st4
    by (simp add: late_commit_failure_facts sample_verdict_def valid_results_def
        batch_process_def)
qed

lemma process_single_gap_returns:
  "\<exists>r. fst (process_single_gap env analysis_id gap index) = Inr r"
  by (simp add: process_single_gap_def catchM_def returnM_def split: prod.split sum.split)

lemma validate_gap_verdict_failure:
  assumes "generate_content env VerdictPrompt
             (count_events (GenerateContent VerdictPrompt) (trace s)) = Inl e"
    and "commit_outcome env (count_events SessionCommit (trace s)) = None"
    and "commit_outcome env (Suc (count_events SessionCommit (trace s))) = None"
    and "surviving_results env
           (generated_query env gap (count_events (GenerateContent QueryPrompt) (trace s))) \<noteq> []"
  shows "\<exists>s'. validate_gap env gap s = (Inr True, s')
     \<and> validation_status (gap_record s') = VALID
     \<and> validation_confidence (gap_record s') = Some (3 / 10)
     \<and> validation_reasoning (gap_record s') = Some ''Could not validate due to error''
     \<and> count_events (GenerateContent VerdictPrompt) (trace s')
         = Suc (count_events (GenerateContent VerdictPrompt) (trace s))"
  using assms
  by (simp add: validate_gap_def catchM_def validate_gap_try_eq Let_def verdict_of_def
      default_validation_def apply_verdict_def count_events_append count_events_Cons
      count_events_Nil count_extraction_events)

text \<open>
  C4 (amended). An exception \<open>e\<close> that leaves the \<open>try\<close> block of \<open>_validate_gap\<close> sets
  the status \<open>VALID\<close>, the confidence 0.3 and the reasoning \<open>Validation error: \<close> followed
  by the text of \<open>e\<close>; the step then reports the gap as valid when the commit of the
  handler succeeds, and raises the exception of that commit when it fails. In that last
  case, for a gap whose record was created, \<open>_process_single_gap\<close> returns \<open>None\<close> and the
  gap is not among the valid gaps of the run. When the call of the AI model for the
  verdict fails, at least one result survived the search and both commits of
  \<open>_validate_gap\<close> succeed, the failure does not reach the handler: one verdict prompt is
  sent, and the gap is reported valid with status \<open>VALID\<close>, confidence 0.3 and the
  reasoning \<open>Could not validate due to error\<close>, the default verdict of
  \<open>GeminiService.validate_gap\<close>. For every behaviour of the collaborators
  \<open>_process_single_gap\<close> returns, a record or \<open>None\<close>, and does not raise.
\<close>

theorem validate_gap_fails_open:
  "(\<forall>e s1. validate_gap_try env gap s = (Inl e, s1) \<longrightarrow>
       validation_status (gap_record (snd (validate_gap env gap s))) = VALID
     \<and> validation_confidence (gap_record (snd (validate_gap env gap s))) = Some (3 / 10)
     \<and> validation_reasoning (gap_record (snd (validate_gap env gap s)))
         = Some (''Validation error: '' @ str_exn e)
     \<and> (commit_outcome env (count_events SessionCommit (trace s1)) = None \<longrightarrow>
          fst (validate_gap env gap s) = Inr True)
     \<and> (\<forall>e'. commit_outcome env (count_events SessionCommit (trace s1)) = Some e' \<longrightarrow>
          fst (validate_gap env gap s) = Inl e'))
   \<and> (\<forall>e e' s1 row_id.
        commit_outcome env 0 = None
        \<and> refresh_outcome env 0 = Inr row_id
        \<and> validate_gap_try env gap (created_task env analysis_id gap index row_id) = (Inl e, s1)
        \<and> commit_outcome env (count_events SessionCommit (trace s1)) = Some e'
       \<longrightarrow> fst (validate_gap env gap (created_task env analysis_id gap index row_id)) = Inl e'
         \<and> fst (process_single_gap env analysis_id gap index) = Inr None
         \<and> valid_results (batch_process [fst (process_single_gap env analysis_id gap index)])
             = [])
   \<and> (\<forall>e. generate_content env VerdictPrompt
             (count_events (GenerateContent VerdictPrompt) (trace s)) = Inl e
        \<and> commit_outcome env (count_events SessionCommit (trace s)) = None
        \<and> commit_outcome env (Suc (count_events SessionCommit (trace s))) = None
        \<and> surviving_results env
            (generated_query env gap (count_events (GenerateContent QueryPrompt) (trace s))) \<noteq> []
       \<longrightarrow> (\<exists>s'. validate_gap env gap s = (Inr True, s')
             \<and> validation_status (gap_record s') = VALID
             \<and> validation_confidence (gap_record s') = Some (3 / 10)
             \<and> validation_reasoning (gap_record s') = Some ''Could not validate due to error''
             \<and> count_events (GenerateContent VerdictPrompt) (trace s')
                 = Suc (count_events (GenerateContent VerdictPrompt) (trace s))))
   \<and> (\<exists>r. fst (process_single_gap env analysis_id gap index) = Inr r)"
proof (intro conjI allI impI)
  fix e s1
  assume t: "validate_gap_try env gap s = (Inl e, s1)"
  then have v: "validate_gap env gap s = validate_gap_except env e s1"
    by (simp add: validate_gap_def catchM_def)
  show "validation_status (gap_record (snd (validate_gap env gap s))) = VALID"
    and "validation_confidence (gap_record (snd (validate_gap env gap s))) = Some (3 / 10)"
    and "validation_reasoning (gap_record (snd (validate_gap env gap s)))
         = Some (''Validation error: '' @ str_exn e)"
    unfolding v by (simp_all add: validate_gap_except_eq Let_def split: option.split)
  {
    assume "commit_outcome env (count_events SessionCommit (trace s1)) = None"
    then show "fst (validate_gap env gap s) = Inr True"
      unfolding v by (simp add: validate_gap_except_eq Let_def)
  }
  {
    fix e'
    assume "commit_outcome env (count_events SessionCommit (trace s1)) = Some e'"
    then show "fst (validate_gap env gap s) = Inl e'"
      unfolding v by (simp add: validate_gap_except_eq Let_def)
  }
next
  fix e e' s1 row_id
  assume h: "commit_outcome env 0 = None
        \<and> refresh_outcome env 0 = Inr row_id
        \<and> validate_gap_try env gap (created_task env analysis_id gap index row_id) = (Inl e, s1)
        \<and> commit_outcome env (count_events SessionCommit (trace s1)) = Some e'"
  then have v: "\<exists>s2. validate_gap env gap (created_task env analysis_id gap index row_id)
                  = (Inl e', s2)"
    by (simp add: validate_gap_def catchM_def validate_gap_except_eq Let_def)
  then obtain s2 where v2: "validate_gap env gap (created_task env analysis_id gap index row_id)
                  = (Inl e', s2)" by blast
  have run: "process_single_gap env analysis_id gap index = (Inr None, s2)"
    using process_single_gap_after_creation [of env row_id analysis_id gap index] h v2
    by simp
  show "fst (validate_gap env gap (created_task env analysis_id gap index row_id)) = Inl e'"
    using v2 by simp
  show "fst (process_single_gap env analysis_id gap index) = Inr None"
    using run by simp
  show "valid_results (batch_process [fst (process_single_gap env analysis_id gap index)]) = []"
    using run by (simp add: valid_results_def batch_process_def)
next
  fix e
  assume "generate_content env VerdictPrompt
             (count_events (GenerateContent VerdictPrompt) (trace s)) = Inl e
        \<and> commit_outcome env (count_events SessionCommit (trace s)) = None
        \<and> commit_outcome env (Suc (count_events SessionCommit (trace s))) = None
        \<and> surviving_results env
            (generated_query env gap (count_events (GenerateContent QueryPrompt) (trace s))) \<noteq> []"
  then show "\<exists>s'. validate_gap env gap s = (Inr True, s')
             \<and> validation_status (gap_record s') = VALID
             \<and> validation_confidence (gap_record s') = Some (3 / 10)
             \<and> validation_reasoning (gap_record s') = Some ''Could not validate due to error''
             \<and> count_events (GenerateContent VerdictPrompt) (trace s')
                 = Suc (count_events (GenerateContent VerdictPrompt) (trace s))"
    using validate_gap_verdict_failure [of env s e gap] by blast
next
  show "\<exists>r. fst (process_single_gap env analysis_id gap index) = Inr r"
    by (rule process_single_gap_returns)
qed

text \<open>
  C4, as stated, fails. With a database whose every commit raises, the first commit of
  \<open>_validate_gap\<close> raises, the handler's commit raises too, and \<open>_validate_gap\<close> raises
  instead of reporting the gap as valid. With a model whose verdict call raises, the
  reasoning stored is a fixed text and not the text of the error, and the verdict prompt
  is sent once.
\<close>

theorem validate_gap_fails_open_counterexample:
  "fst (validate_gap_try lost_database sample_gap (fresh_task lost_database))
     = Inl (CollaboratorError ''connection lost'')
   \<and> fst (validate_gap lost_database sample_gap (fresh_task lost_database))
     = Inl (CollaboratorError ''connection lost'')
   \<and> fst (validate_gap lost_database sample_gap (fresh_task lost_database)) \<noteq> Inr True
   \<and> generate_content exhausted_model VerdictPrompt 0 = Inl (CollaboratorError ''quota exceeded'')
   \<and> validation_reasoning (gap_record (snd
        (validate_gap exhausted_model sample_gap (fresh_task exhausted_model))))
       = Some ''Could not validate due to error''
   \<and> count_events (GenerateContent VerdictPrompt) (trace (snd
        (validate_gap exhausted_model sample_gap (fresh_task exhausted_model)))) = 1"
  by (simp add: validate_gap_def catchM_def validate_gap_try_eq validate_gap_except_eq Let_def
      lost_database_def exhausted_model_def quiet_collaborators_def fresh_task_def
      count_events_append count_events_Cons count_events_Nil count_extraction_events
      surviving_results_def provider_results_def deduplicate_results_def slice_upto_def
      exact_match_helpers_def paper_titled_def normalized_title_def verdict_of_def
      default_validation_def apply_verdict_def extraction_events_def)

theorem validate_gap_fails_open_witness:
  "validate_gap_try flaky_database sample_gap (fresh_task flaky_database)
     = (Inl (CollaboratorError ''connection lost''),
        (fresh_task flaky_database)\<lparr>trace := [SessionCommit],
           gap_record := (gap_record (fresh_task flaky_database))\<lparr>validation_status := VALIDATING\<rparr>\<rparr>)
   \<and> commit_outcome flaky_database (count_events SessionCommit [SessionCommit]) = None
   \<and> fst (validate_gap flaky_database sample_gap (fresh_task flaky_database)) = Inr True
   \<and> validation_reasoning (gap_record (snd
        (validate_gap flaky_database sample_gap (fresh_task flaky_database))))
       = Some ''Validation error: connection lost''
   \<and> commit_outcome lost_after_creation 0 = None
   \<and> refresh_outcome lost_after_creation 0 = Inr ''row-1''
   \<and> validate_gap_try lost_after_creation sample_gap
        (created_task lost_after_creation ''run-1'' sample_gap 0 ''row-1'')
       = (Inl (CollaboratorError ''connection lost''),
          (created_task lost_after_creation ''run-1'' sample_gap 0 ''row-1'')
            \<lparr>trace := [SessionCommit, SessionRefresh, SessionCommit],
             gap_record := (gap_record
                (created_task lost_after_creation ''run-1'' sample_gap 0 ''row-1''))
                  \<lparr>validation_status := VALIDATING\<rparr>\<rparr>)
   \<and> commit_outcome lost_after_creation
        (count_events SessionCommit [SessionCommit, SessionRefresh, SessionCommit])
       = Some (CollaboratorError ''connection lost'')
   \<and> fst (process_single_gap lost_after_creation ''run-1'' sample_gap 0) = Inr None
   \<and> generate_content exhausted_model VerdictPrompt
        (count_events (GenerateContent VerdictPrompt) (trace (fresh_task exhausted_model)))
       = Inl (CollaboratorError ''quota exceeded'')
   \<and> commit_outcome exhausted_model 0 = None
   \<and> commit_outcome exhausted_model (Suc 0) = None
   \<and> surviving_results exhausted_model (generated_query exhausted_model sample_gap 0) \<noteq> []
   \<and> fst (validate_gap exhausted_model sample_gap (fresh_task exhausted_model)) = Inr True"
proof -
  have t: "validate_gap_try flaky_database sample_gap (fresh_task flaky_database)
     = (Inl (CollaboratorError ''connection lost''),
        (fresh_task flaky_database)\<lparr>trace := [SessionCommit],
           gap_record := (gap_record (fresh_task flaky_database))\<lparr>validation_status := VALIDATING\<rparr>\<rparr>)"
    by (simp add: validate_gap_try_eq Let_def flaky_database_def quiet_collaborators_def
        fresh_task_def count_events_Nil)
  have c: "commit_outcome flaky_database (count_events SessionCommit [SessionCommit]) = None"
    by (simp add: flaky_database_def count_events_Cons count_events_Nil)
  have l0: "commit_outcome lost_after_creation 0 = None"
    and l1: "refresh_outcome lost_after_creation 0 = Inr ''row-1''"
    and l3: "commit_outcome lost_after_creation
        (count_events SessionCommit [SessionCommit, SessionRefresh, SessionCommit])
       = Some (CollaboratorError ''connection lost'')"
    by (simp_all add: lost_after_creation_def quiet_collaborators_def count_events_Cons
        count_events_Nil)
  have l2: "validate_gap_try lost_after_creation sample_gap
        (created_task lost_after_creation ''run-1'' sample_gap 0 ''row-1'')
       = (Inl (CollaboratorError ''connection lost''),
          (created_task lost_after_creation ''run-1'' sample_gap 0 ''row-1'')
            \<lparr>trace := [SessionCommit, SessionRefresh, SessionCommit],
             gap_record := (gap_record
                (created_task lost_after_creation ''run-1'' sample_gap 0 ''row-1''))
                  \<lparr>validation_status := VALIDATING\<rparr>\<rparr>)"
    by (simp add: validate_gap_try_eq Let_def lost_after_creation_def quiet_collaborators_def
        created_task_def count_events_Cons count_events_Nil)
  have g: "generate_content exhausted_model VerdictPrompt
        (count_events (GenerateContent VerdictPrompt) (trace (fresh_task exhausted_model)))
       = Inl (CollaboratorError ''quota exceeded'')"
    and c0: "commit_outcome exhausted_model 0 = None"
    and c1: "commit_outcome exhausted_model (Suc 0) = None"
    and r: "surviving_results exhausted_model (generated_query exhausted_model sample_gap 0) \<noteq> []"
    by (simp_all add: exhausted_model_def quiet_collaborators_def surviving_results_def
        provider_results_def deduplicate_results_def slice_upto_def exact_match_helpers_def
        paper_titled_def normalized_title_def)
  note a = validate_gap_fails_open [where env = flaky_database and gap = sample_gap
      and s = "fresh_task flaky_database" and analysis_id = "''run-1''" and index = 0,
      THEN conjunct1, rule_format, OF t]
  note d = validate_gap_fails_open [where env = lost_after_creation and gap = sample_gap
      and s = "fresh_task lost_after_creation" and analysis_id = "''run-1''" and index = 0,
      THEN conjunct2, THEN conjunct1, rule_format,
      of "''row-1''" "CollaboratorError ''connection lost''" _
         "CollaboratorError ''connection lost''"]
  note b = validate_gap_fails_open [where env = exhausted_model and gap = sample_gap
      and s = "fresh_task exhausted_model" and analysis_id = "''run-1''" and index = 0,
      THEN conjunct2, THEN conjunct2, THEN conjunct1, rule_format,
      of "CollaboratorError ''quota exceeded''"]
  have a1: "fst (validate_gap flaky_database sample_gap (fresh_task flaky_database)) = Inr True"
    using a c by (simp add: fresh_task_def)
  have a2: "validation_reasoning (gap_record (snd
        (validate_gap flaky_database sample_gap (fresh_task flaky_database))))
       = Some ''Validation error: connection lost''"
    using a by simp
  have d1: "fst (process_single_gap lost_after_creation ''run-1'' sample_gap 0) = Inr None"
    using d l0 l1 l2 l3 by (simp add: created_task_def)
  have b1: "fst (validate_gap exhausted_model sample_gap (fresh_task exhausted_model)) = Inr True"
    using b g c0 c1 r by (auto simp: fresh_task_def count_events_Nil)
  from t c a1 a2 l0 l1 l2 l3 d1 g c0 c1 r b1 show ?thesis by blast
qed

section \<open>Properties of a run\<close>

lemma mark_analysis_failed_eq:
  "mark_analysis_failed env err s =
     (case commit_outcome env (count_events SessionCommit (trace s)) of
        None \<Rightarrow> Inr () | Some e \<Rightarrow> Inl e,
      s\<lparr>trace := trace s @ [SessionCommit],
        analysis := map_option (failed_fields err (now env (length (trace s)))) (analysis s)\<rparr>)"
  by (simp add: mark_analysis_failed_def bindM_def utc_now_def modify_analysis_def
      session_commit_def Let_def split: option.split)

lemma update_analysis_summary_eq:
  "update_analysis_summary env total_gaps valid_gaps s =
     (case commit_outcome env (count_events SessionCommit (trace s)) of
        None \<Rightarrow> Inr () | Some e \<Rightarrow> Inl e,
      s\<lparr>trace := trace s @ [SessionCommit],
        analysis := map_option (summary_fields total_gaps valid_gaps (now env (length (trace s))))
                      (analysis s)\<rparr>)"
  by (simp add: update_analysis_summary_def bindM_def utc_now_def modify_analysis_def
      session_commit_def Let_def split: option.split)

lemma analyze_paper_except_analysis:
  "analysis (snd (analyze_paper_except env request e s)) =
     map_option (failed_fields (str_exn e) (now env (length (trace s)))) (analysis s)"
  by (cases "analysis s")
     (simp_all add: analyze_paper_except_def bindM_def liftE_def mark_analysis_failed_eq
        split: option.split sum.split prod.split)

text \<open>
  C2 (amended). The status of a run is the one written last. \<open>_update_analysis_summary\<close>
  writes \<open>COMPLETED\<close> and \<open>_mark_analysis_failed\<close> writes \<open>FAILED\<close> and the error text,
  each whatever the status was; the handler of \<open>analyze_paper\<close> marks the run failed
  whenever the run object exists, also when its status is already \<open>COMPLETED\<close>, and
  leaves a run that was never created absent.
\<close>

theorem run_status_last_write_wins:
  "status (summary_fields total_gaps valid_gaps t a) = COMPLETED
   \<and> status (failed_fields err t a) = FAILED
   \<and> error_message (failed_fields err t a) = Some err
   \<and> (analysis s = Some a \<longrightarrow>
        analysis (snd (update_analysis_summary env total_gaps valid_gaps s))
          = Some (summary_fields total_gaps valid_gaps (now env (length (trace s))) a)
      \<and> analysis (snd (mark_analysis_failed env err s))
          = Some (failed_fields err (now env (length (trace s))) a)
      \<and> analysis (snd (analyze_paper_except env request e s))
          = Some (failed_fields (str_exn e) (now env (length (trace s))) a))
   \<and> (analysis s = None \<longrightarrow> analysis (snd (analyze_paper_except env request e s)) = None)"
  by (simp add: summary_fields_def failed_fields_def update_analysis_summary_eq
      mark_analysis_failed_eq analyze_paper_except_analysis)

text \<open>
  C2, as stated, fails: on a run whose status is \<open>COMPLETED\<close>, \<open>_mark_analysis_failed\<close>
  writes \<open>FAILED\<close>; and when the session raises in \<open>_prepare_response\<close>, after the summary
  update has written \<open>COMPLETED\<close>, the handler of \<open>analyze_paper\<close> leaves the run \<open>FAILED\<close>.
\<close>

theorem run_status_last_write_wins_counterexample:
  "status sample_analysis = COMPLETED
   \<and> map_option status (analysis (snd
        (mark_analysis_failed quiet_run_collaborators ''connection lost''
           \<lparr>trace = [], analysis = Some sample_analysis\<rparr>))) = Some FAILED
   \<and> map_option status (analysis (snd
        (update_analysis_summary failing_topics_run 1 1
           \<lparr>trace = [], analysis = Some (sample_analysis\<lparr>status := PROCESSING\<rparr>)\<rparr>)))
       = Some COMPLETED
   \<and> map_option status (analysis (snd
        (catchM (summarize_and_respond failing_topics_run [sample_gap] [Some zero_confidence_gap])
           (analyze_paper_except failing_topics_run sample_request)
           \<lparr>trace = [], analysis = Some (sample_analysis\<lparr>status := PROCESSING\<rparr>)\<rparr>)))
       = Some FAILED"
  by (simp add: mark_analysis_failed_eq update_analysis_summary_eq analyze_paper_except_analysis
      failed_fields_def summary_fields_def sample_analysis_def catchM_def
      summarize_and_respond_def bindM_def get_analysis_def prepare_response_def
      session_select_topics_def liftE_def valid_results_def failing_topics_run_def
      quiet_run_collaborators_def split: prod.split sum.split)

theorem run_status_last_write_wins_witness:
  "analysis \<lparr>trace = [], analysis = Some sample_analysis\<rparr> = Some sample_analysis
   \<and> status sample_analysis = COMPLETED
   \<and> map_option status (analysis (snd
        (analyze_paper_except quiet_run_collaborators sample_request (ValueError ''late failure'')
           \<lparr>trace = [], analysis = Some sample_analysis\<rparr>))) = Some FAILED
   \<and> analysis \<lparr>trace = [], analysis = None\<rparr> = None
   \<and> analysis (snd
        (analyze_paper_except quiet_run_collaborators sample_request (ValueError ''late failure'')
           \<lparr>trace = [], analysis = None\<rparr>)) = None"
  using run_status_last_write_wins [where s = "\<lparr>trace = [], analysis = Some sample_analysis\<rparr>"
      and a = sample_analysis and env = quiet_run_collaborators and request = sample_request
      and e = "ValueError ''late failure''" and err = "''late failure''"
      and total_gaps = 1 and valid_gaps = 1 and t = 0]
    run_status_last_write_wins [where s = "\<lparr>trace = [], analysis = None\<rparr>"
      and a = sample_analysis and env = quiet_run_collaborators and request = sample_request
      and e = "ValueError ''late failure''" and err = "''late failure''"
      and total_gaps = 1 and valid_gaps = 1 and t = 0]
  by (simp add: sample_analysis_def failed_fields_def)

lemma create_gap_analysis_raises:
  "create_gap_analysis env request s = (Inl (AttributeError ''GapAnalysisRequest'' ''paper_id''), s)"
  by (simp add: create_gap_analysis_def bindM_def liftE_def request_attribute_def)

lemma analyze_paper_try_raises:
  "analyze_paper_try env request s = (Inl (AttributeError ''GapAnalysisRequest'' ''paper_id''), s)"
  by (simp add: analyze_paper_try_def bindM_def create_gap_analysis_raises)

lemma failed_response_raises:
  "failed_response request e = Inl (AttributeError ''GapAnalysisRequest'' ''request_id'')"
  by (simp add: failed_response_def request_attribute_def)

text \<open>
  C1. \<open>analyze_paper\<close> should return a response for every request and every behaviour
  of the collaborators. It raises for every request of the declared class: the first
  statement of the \<open>try\<close> block reads \<open>request.paper_id\<close>, which the class does not have,
  so no run is created; the handler then reads \<open>request.request_id\<close> to build the failed
  response, which raises again, outside any handler. The exception that reaches the
  caller is that \<open>AttributeError\<close>, or the exception of a \<open>close\<close> call of the \<open>finally\<close>
  block when one of them raises.
\<close>

theorem analyze_paper_raises:
  "fst (analyze_paper env request) =
     Inl (case close_search_service env of
            Some e \<Rightarrow> e
          | None \<Rightarrow>
              (case close_grobid_client env of
                 Some e \<Rightarrow> e
               | None \<Rightarrow> AttributeError ''GapAnalysisRequest'' ''request_id''))
   \<and> analysis (snd (analyze_paper env request)) = None
   \<and> fst (analyze_paper quiet_run_collaborators sample_request)
       = Inl (AttributeError ''GapAnalysisRequest'' ''request_id'')"
  by (simp add: analyze_paper_def finallyM_def catchM_def analyze_paper_try_raises
      analyze_paper_except_def bindM_def liftE_def failed_response_raises close_clients_def
      quiet_run_collaborators_def split: option.split)

end
